theory Spec2Isabelle
  imports Complex_Main "HOL-Library.AList"
begin

section \<open>Scene documents as Python values\<close>

text \<open>
  The service works on the values that \<^verbatim>\<open>json.loads\<close> produces: \<^verbatim>\<open>None\<close>, booleans,
  numbers, strings, lists and dicts with string keys. A dict is an association list in
  insertion order; a store to an existing key keeps its place and a store to a new key
  appends it, as in Python. Numbers are exact rationals: the rounding of IEEE doubles is
  not part of the model, and Python's \<^verbatim>\<open>1 == 1.0\<close> holds because both are the same
  \<open>JNum\<close>. Equality of two \<open>json\<close> values is finer than Python's \<^verbatim>\<open>==\<close> (it looks at
  key order and tells \<^verbatim>\<open>True\<close> from \<^verbatim>\<open>1\<close>), so an equation proved here holds in Python.
\<close>

datatype json =
    JNull
  | JBool bool
  | JNum rat
  | JStr string
  | JList "json list"
  | JObj "(string \<times> json) list"

text \<open>The exceptions the modelled code can raise; \<open>Inl\<close> of a result is a raise.\<close>

datatype py_error = TypeError | AttributeError | KeyError | IndexError

type_synonym 'a result = "py_error + 'a"

text \<open>
  The two readings of the wall clock the code makes: \<^verbatim>\<open>str(int(time.time()))\<close> and
  \<^verbatim>\<open>time.strftime("%Y-%m-%dT%H:%M:%SZ", time.gmtime())\<close>. They are inputs of the model.
\<close>

record clock =
  unix_time :: string
  iso_time :: string

definition bind_res :: "'a result \<Rightarrow> ('a \<Rightarrow> 'b result) \<Rightarrow> 'b result" where
  "bind_res m f = (case m of Inl e \<Rightarrow> Inl e | Inr x \<Rightarrow> f x)"

fun mapM_res :: "('a \<Rightarrow> 'b result) \<Rightarrow> 'a list \<Rightarrow> 'b list result" where
  "mapM_res f [] = Inr []"
| "mapM_res f (x # xs) =
     (case f x of Inl e \<Rightarrow> Inl e
      | Inr y \<Rightarrow> (case mapM_res f xs of Inl e \<Rightarrow> Inl e | Inr ys \<Rightarrow> Inr (y # ys)))"

subsection \<open>Python's generic operations on these values\<close>

text \<open>\<^verbatim>\<open>bool(v)\<close>: the truth value Python gives a value in \<^verbatim>\<open>if v\<close> and \<^verbatim>\<open>v or w\<close>.\<close>

fun truthy :: "json \<Rightarrow> bool" where
  "truthy JNull = False"
| "truthy (JBool b) = b"
| "truthy (JNum r) = (r \<noteq> 0)"
| "truthy (JStr s) = (s \<noteq> [])"
| "truthy (JList xs) = (xs \<noteq> [])"
| "truthy (JObj kvs) = (kvs \<noteq> [])"

fun is_dict :: "json \<Rightarrow> bool" where
  "is_dict (JObj _) = True"
| "is_dict _ = False"

fun is_list :: "json \<Rightarrow> bool" where
  "is_list (JList _) = True"
| "is_list _ = False"

text \<open>A value used in arithmetic: \<^verbatim>\<open>bool\<close> is a subclass of \<^verbatim>\<open>int\<close> in Python.\<close>

fun num_of :: "json \<Rightarrow> rat option" where
  "num_of (JNum r) = Some r"
| "num_of (JBool b) = Some (if b then 1 else 0)"
| "num_of _ = None"

text \<open>\<^verbatim>\<open>for x in v\<close>: a list gives its items, a string its characters, a dict its keys.\<close>

fun py_iter :: "json \<Rightarrow> json list result" where
  "py_iter (JList xs) = Inr xs"
| "py_iter (JStr s) = Inr (map (\<lambda>c. JStr [c]) s)"
| "py_iter (JObj kvs) = Inr (map (\<lambda>p. JStr (fst p)) kvs)"
| "py_iter _ = Inl TypeError"

text \<open>\<^verbatim>\<open>v.get(k, dflt)\<close>: only a dict has the method.\<close>

fun py_get :: "json \<Rightarrow> string \<Rightarrow> json \<Rightarrow> json result" where
  "py_get (JObj d) k dflt = Inr (case map_of d k of None \<Rightarrow> dflt | Some v \<Rightarrow> v)"
| "py_get _ k dflt = Inl AttributeError"

text \<open>\<^verbatim>\<open>v[0]\<close> and \<^verbatim>\<open>v["k"]\<close>.\<close>

fun py_index0 :: "json \<Rightarrow> json result" where
  "py_index0 (JList []) = Inl IndexError"
| "py_index0 (JList (x # xs)) = Inr x"
| "py_index0 (JStr []) = Inl IndexError"
| "py_index0 (JStr (c # cs)) = Inr (JStr [c])"
| "py_index0 (JObj kvs) = Inl KeyError"
| "py_index0 _ = Inl TypeError"

fun py_getitem :: "json \<Rightarrow> string \<Rightarrow> json result" where
  "py_getitem (JObj d) k = (case map_of d k of None \<Rightarrow> Inl KeyError | Some v \<Rightarrow> Inr v)"
| "py_getitem _ k = Inl TypeError"

text \<open>\<^verbatim>\<open>sum(xs)\<close>, which starts from the integer 0 and adds from the left.\<close>

fun py_sum :: "rat \<Rightarrow> json list \<Rightarrow> rat result" where
  "py_sum acc [] = Inr acc"
| "py_sum acc (x # xs) =
     (case num_of x of None \<Rightarrow> Inl TypeError | Some r \<Rightarrow> py_sum (acc + r) xs)"

text \<open>
  \<^verbatim>\<open>d.setdefault("k", []).append(x)\<close> on a dict \<open>d\<close>: the list under \<open>k\<close> grows by \<open>x\<close>,
  a missing key starts from the empty list, and any other value has no \<^verbatim>\<open>append\<close>.
\<close>

definition setdefault_append :: "(string \<times> json) list \<Rightarrow> string \<Rightarrow> json \<Rightarrow> (string \<times> json) list result" where
  "setdefault_append d k x =
     (case map_of d k of
        None \<Rightarrow> Inr (AList.update k (JList [x]) d)
      | Some (JList xs) \<Rightarrow> Inr (AList.update k (JList (xs @ [x])) d)
      | Some _ \<Rightarrow> Inl AttributeError)"

section \<open>The validator (utils/validators.py)\<close>

definition REQUIRED_FIELDS :: "string list" where
  "REQUIRED_FIELDS = [''id'', ''title'', ''style'']"

definition STYLE_NAMES :: "string list" where
  "STYLE_NAMES = [''ethereal'', ''cyberpunk'', ''surreal'', ''fantasy'', ''nightmare'']"

text \<open>\<^verbatim>\<open>v in ["ethereal", ...]\<close>: only a string equals a string.\<close>

definition in_style_enum :: "json \<Rightarrow> bool" where
  "in_style_enum v = (case v of JStr s \<Rightarrow> s \<in> set STYLE_NAMES | _ \<Rightarrow> False)"

text \<open>
  The error codes of \<^verbatim>\<open>validate_dream\<close>. The code formats them as strings
  (\<^verbatim>\<open>missing_required:<field>\<close>, \<^verbatim>\<open>invalid_style:<value>\<close>, ...); the model keeps the
  code and its argument.
\<close>

datatype verror =
    DreamMustBeAnObject
  | MissingRequired string
  | InvalidStyle json
  | CinematographyNotObject
  | CinematographyMissingDurationOrShots
  | CinematographyShotsInvalid

definition validate_dream :: "json \<Rightarrow> bool \<times> verror list" where
  "validate_dream dream =
     (case dream of
        JObj d \<Rightarrow>
          (let missing = map MissingRequired (filter (\<lambda>f. map_of d f = None) REQUIRED_FIELDS);
               style_errs =
                 (case map_of d ''style'' of
                    None \<Rightarrow> []
                  | Some s \<Rightarrow> if in_style_enum s then [] else [InvalidStyle s]);
               cin_errs =
                 (case map_of d ''cinematography'' of
                    None \<Rightarrow> []
                  | Some (JObj c) \<Rightarrow>
                      (if map_of c ''durationSec'' = None \<or> map_of c ''shots'' = None
                       then [CinematographyMissingDurationOrShots]
                       else (case map_of c ''shots'' of
                               Some (JList (x # xs)) \<Rightarrow> []
                             | _ \<Rightarrow> [CinematographyShotsInvalid]))
                  | Some _ \<Rightarrow> [CinematographyNotObject]);
               errors = missing @ style_errs @ cin_errs
           in (errors = [], errors))
      | _ \<Rightarrow> (False, [DreamMustBeAnObject]))"

section \<open>The repairer (utils/validators.py)\<close>

text \<open>
  \<^verbatim>\<open>repaired["structures"][0]["id"] if repaired.get("structures") else "s1"\<close>
\<close>

definition establish_target :: "(string \<times> json) list \<Rightarrow> json result" where
  "establish_target repaired =
     (case map_of repaired ''structures'' of
        None \<Rightarrow> Inr (JStr ''s1'')
      | Some v \<Rightarrow>
          if truthy v
          then bind_res (py_index0 v) (\<lambda>s0. py_getitem s0 ''id'')
          else Inr (JStr ''s1''))"

definition establish_shot :: "json \<Rightarrow> json \<Rightarrow> json" where
  "establish_shot target dur =
     JObj [(''type'', JStr ''establish''), (''target'', target), (''duration'', dur)]"

text \<open>\<^verbatim>\<open>sum([s.get("duration", 0) for s in c.get("shots", [])]) or 30\<close>\<close>

definition derived_duration :: "(string \<times> json) list \<Rightarrow> json result" where
  "derived_duration c =
     bind_res (py_iter (case map_of c ''shots'' of None \<Rightarrow> JList [] | Some v \<Rightarrow> v)) (\<lambda>shots.
     bind_res (mapM_res (\<lambda>s. py_get s ''duration'' (JNum 0)) shots) (\<lambda>ds.
     bind_res (py_sum 0 ds) (\<lambda>total.
     Inr (JNum (if total = 0 then 30 else total)))))"

text \<open>The \<^verbatim>\<open>else\<close> branch of the cinematography repair, on the dict \<open>c\<close>.\<close>

definition repair_cinematography :: "(string \<times> json) list \<Rightarrow> (string \<times> json) list \<Rightarrow> (string \<times> json) list result" where
  "repair_cinematography repaired c =
     bind_res
       (if map_of c ''durationSec'' = None
        then bind_res (derived_duration c) (\<lambda>d. Inr (AList.update ''durationSec'' d c))
        else Inr c) (\<lambda>c1.
     (case map_of c1 ''shots'' of
        Some (JList (x # xs)) \<Rightarrow> Inr c1
      | _ \<Rightarrow>
         bind_res (establish_target repaired) (\<lambda>t.
         Inr (AList.update ''shots''
                (JList [establish_shot t
                   (case map_of c1 ''durationSec'' of None \<Rightarrow> JNum 30 | Some v \<Rightarrow> v)]) c1))))"

definition ensure_array :: "string \<Rightarrow> (string \<times> json) list \<Rightarrow> (string \<times> json) list" where
  "ensure_array k d =
     AList.update k
       (case map_of d k of
          None \<Rightarrow> JList []
        | Some v \<Rightarrow> if is_list v then v else JList []) d"

definition repair_dream :: "clock \<Rightarrow> json \<Rightarrow> json result" where
  "repair_dream clk dream =
     (case dream of
        JObj d0 \<Rightarrow>
          (let d1 = AList.update ''id''
                      (case map_of d0 ''id'' of
                         None \<Rightarrow> JStr (''repaired_'' @ unix_time clk) | Some v \<Rightarrow> v) d0;
               d2 = AList.update ''title''
                      (case map_of d1 ''title'' of
                         None \<Rightarrow> JStr ''Repaired Dream'' | Some v \<Rightarrow> v) d1;
               d3 = (if in_style_enum (case map_of d2 ''style'' of None \<Rightarrow> JNull | Some v \<Rightarrow> v)
                     then d2 else AList.update ''style'' (JStr ''ethereal'') d2);
               d4 = ensure_array ''structures'' d3;
               d5 = ensure_array ''entities'' d4
           in bind_res
                (case map_of d5 ''cinematography'' of
                   Some (JObj c) \<Rightarrow>
                     bind_res (repair_cinematography d5 c) (\<lambda>c'.
                     Inr (AList.update ''cinematography'' (JObj c') d5))
                 | _ \<Rightarrow>
                     bind_res (establish_target d5) (\<lambda>t.
                     Inr (AList.update ''cinematography''
                            (JObj [(''durationSec'', JNum 30),
                                   (''shots'', JList [establish_shot t (JNum 30)])]) d5)))
                (\<lambda>d6. bind_res (setdefault_append d6 ''assumptions'' (JStr ''auto_repaired_missing_fields''))
                (\<lambda>d7. Inr (JObj d7))))
      | _ \<Rightarrow> Inl AttributeError)"

section \<open>Strings\<close>

text \<open>
  \<^verbatim>\<open>str.lower()\<close> on the ASCII letters (the keywords the code looks for are ASCII), and
  \<^verbatim>\<open>k in s\<close> on strings: \<open>k\<close> occurs in \<open>s\<close> as a contiguous substring.
\<close>

definition lower_char :: "char \<Rightarrow> char" where
  "lower_char c =
     (case map_of (zip ''ABCDEFGHIJKLMNOPQRSTUVWXYZ'' ''abcdefghijklmnopqrstuvwxyz'') c of
        None \<Rightarrow> c | Some l \<Rightarrow> l)"

definition py_lower :: "string \<Rightarrow> string" where
  "py_lower s = map lower_char s"

fun starts_with :: "string \<Rightarrow> string \<Rightarrow> bool" where
  "starts_with [] s = True"
| "starts_with (a # k) [] = False"
| "starts_with (a # k) (c # s) = (a = c \<and> starts_with k s)"

fun is_substring :: "string \<Rightarrow> string \<Rightarrow> bool" where
  "is_substring k [] = (k = [])"
| "is_substring k (c # s) = (starts_with k (c # s) \<or> is_substring k s)"

text \<open>\<^verbatim>\<open>f'Requested edit recorded: "{edit_text}"'\<close>; the character 0x22 is the double quote.\<close>

definition recorded_note :: "string \<Rightarrow> string" where
  "recorded_note edit_text = ''Requested edit recorded: '' @ [CHR 0x22] @ edit_text @ [CHR 0x22]"

text \<open>\<^verbatim>\<open>sep.join(xs)\<close>\<close>

fun py_join :: "string \<Rightarrow> string list \<Rightarrow> string" where
  "py_join sep [] = []"
| "py_join sep [x] = x"
| "py_join sep (x # y # ys) = x @ sep @ py_join sep (y # ys)"

section \<open>Entities and their parameters\<close>

text \<open>
  \<^verbatim>\<open>e.setdefault("params", {})[k] = v\<close> on one entity: an entity that is not a dict has
  no \<^verbatim>\<open>setdefault\<close>, and a \<^verbatim>\<open>params\<close> value that is not a dict takes no item store.
\<close>

definition set_param :: "string \<Rightarrow> json \<Rightarrow> json \<Rightarrow> json result" where
  "set_param k v e =
     (case e of
        JObj d \<Rightarrow>
          (case map_of d ''params'' of
             None \<Rightarrow> Inr (JObj (AList.update ''params'' (JObj [(k, v)]) d))
           | Some (JObj p) \<Rightarrow> Inr (JObj (AList.update ''params'' (JObj (AList.update k v p)) d))
           | Some _ \<Rightarrow> Inl TypeError)
      | _ \<Rightarrow> Inl AttributeError)"

text \<open>
  \<^verbatim>\<open>for e in patched.get("entities", []): <body>\<close>, where the body updates the entity
  in place. Items of a list are replaced by their updated values; the characters of a
  string and the keys of a dict are strings, which the body cannot update, so the document
  stays as it is when the body raises on none of them (that is, when there is none).
\<close>

definition for_entities :: "(json \<Rightarrow> json result) \<Rightarrow> (string \<times> json) list \<Rightarrow> (string \<times> json) list result" where
  "for_entities body d =
     (case map_of d ''entities'' of
        None \<Rightarrow> Inr d
      | Some (JList es) \<Rightarrow>
          bind_res (mapM_res body es) (\<lambda>es'. Inr (AList.update ''entities'' (JList es') d))
      | Some v \<Rightarrow>
          bind_res (py_iter v) (\<lambda>items.
          bind_res (mapM_res body items) (\<lambda>_. Inr d)))"

text \<open>
  \<^verbatim>\<open>p = e.setdefault("params", {}); p["speed"] = clamp(p.get("speed", 1.0) * factor)\<close>:
  here a \<^verbatim>\<open>params\<close> value that is not a dict has no \<^verbatim>\<open>get\<close>, and a speed that is
  not a number cannot be multiplied by a float.
\<close>

definition scale_speed :: "rat \<Rightarrow> (rat \<Rightarrow> rat) \<Rightarrow> json \<Rightarrow> json result" where
  "scale_speed factor clamp e =
     (case e of
        JObj d \<Rightarrow>
          (case (case map_of d ''params'' of None \<Rightarrow> JObj [] | Some p \<Rightarrow> p) of
             JObj p \<Rightarrow>
               (case num_of (case map_of p ''speed'' of None \<Rightarrow> JNum 1 | Some v \<Rightarrow> v) of
                  None \<Rightarrow> Inl TypeError
                | Some r \<Rightarrow>
                    Inr (JObj (AList.update ''params''
                           (JObj (AList.update ''speed'' (JNum (clamp (r * factor))) p)) d)))
           | _ \<Rightarrow> Inl AttributeError)
      | _ \<Rightarrow> Inl AttributeError)"

text \<open>\<^verbatim>\<open>min(10, x)\<close> and \<^verbatim>\<open>max(0.01, x)\<close>: the first argument wins a tie.\<close>

definition min10 :: "rat \<Rightarrow> rat" where
  "min10 x = (if x < 10 then x else 10)"

definition max001 :: "rat \<Rightarrow> rat" where
  "max001 x = (if 1 / 100 < x then x else 1 / 100)"

text \<open>
  \<^verbatim>\<open>if patched.get("environment"): patched.setdefault("environment", {})["skyColor"] = v\<close>
\<close>

definition set_sky_color :: "json \<Rightarrow> (string \<times> json) list \<Rightarrow> (string \<times> json) list result" where
  "set_sky_color v d =
     (case map_of d ''environment'' of
        None \<Rightarrow> Inr d
      | Some env \<Rightarrow>
          if truthy env
          then (case env of
                  JObj e \<Rightarrow> Inr (AList.update ''environment'' (JObj (AList.update ''skyColor'' v e)) d)
                | _ \<Rightarrow> Inl TypeError)
          else Inr d)"

text \<open>\<^verbatim>\<open>patched["k"].append(x)\<close>, the key being read with a subscript.\<close>

definition append_at :: "(string \<times> json) list \<Rightarrow> string \<Rightarrow> json \<Rightarrow> (string \<times> json) list result" where
  "append_at d k x =
     (case map_of d k of
        None \<Rightarrow> Inl KeyError
      | Some (JList xs) \<Rightarrow> Inr (AList.update k (JList (xs @ [x])) d)
      | Some _ \<Rightarrow> Inl AttributeError)"

definition dict_setdefault :: "string \<Rightarrow> json \<Rightarrow> (string \<times> json) list \<Rightarrow> (string \<times> json) list" where
  "dict_setdefault k v d = (case map_of d k of None \<Rightarrow> AList.update k v d | Some _ \<Rightarrow> d)"

section \<open>The safe text-edit transform (utils/validators.py)\<close>

definition color_map :: "(string \<times> string) list" where
  "color_map =
     [(''red'', ''#ff0000''), (''blue'', ''#0000ff''), (''green'', ''#00ff00''),
      (''yellow'', ''#ffff00''), (''purple'', ''#800080''), (''pink'', ''#ff69b4''),
      (''orange'', ''#ffa500''), (''white'', ''#ffffff''), (''black'', ''#000000''),
      (''gold'', ''#ffd700''), (''cyan'', ''#00ffff'')]"

text \<open>
  The state of the rule loop is the document and the list \<^verbatim>\<open>applied\<close>. One turn of
  \<^verbatim>\<open>for k, v in color_map.items()\<close>; \<open>label\<close> builds the entry of \<^verbatim>\<open>applied\<close>.
\<close>

definition color_rule :: "(string \<Rightarrow> string) \<Rightarrow> string \<Rightarrow> string \<times> string \<Rightarrow>
    (string \<times> json) list \<times> string list \<Rightarrow> ((string \<times> json) list \<times> string list) result" where
  "color_rule label edit kv st =
     (if is_substring (fst kv) edit
      then bind_res (for_entities (set_param ''color'' (JStr (snd kv))) (fst st)) (\<lambda>d1.
           bind_res (set_sky_color (JStr (snd kv)) d1) (\<lambda>d2.
           Inr (d2, snd st @ [label (fst kv)])))
      else Inr st)"

fun foldM_res :: "('a \<Rightarrow> 's \<Rightarrow> 's result) \<Rightarrow> 'a list \<Rightarrow> 's \<Rightarrow> 's result" where
  "foldM_res f [] st = Inr st"
| "foldM_res f (x # xs) st = (case f x st of Inl e \<Rightarrow> Inl e | Inr st' \<Rightarrow> foldM_res f xs st')"

definition wants_island :: "string \<Rightarrow> bool" where
  "wants_island edit =
     (is_substring ''add island'' edit \<or> (is_substring ''add'' edit \<and> is_substring ''island'' edit))"

definition wants_tower :: "string \<Rightarrow> bool" where
  "wants_tower edit =
     (is_substring ''add tower'' edit \<or> (is_substring ''add'' edit \<and> is_substring ''tower'' edit))"

definition wants_faster :: "string \<Rightarrow> bool" where
  "wants_faster edit = (\<exists>s \<in> set [''faster'', ''speed up'', ''quick'']. is_substring s edit)"

definition wants_slower :: "string \<Rightarrow> bool" where
  "wants_slower edit = (\<exists>s \<in> set [''slower'', ''calm'', ''gentle'']. is_substring s edit)"

definition safe_island :: "clock \<Rightarrow> json" where
  "safe_island clk =
     JObj [(''id'', JStr (''added_island_'' @ unix_time clk)),
           (''template'', JStr ''floating_island''),
           (''pos'', JList [JNum 0, JNum 15, JNum 0]),
           (''scale'', JNum (4 / 5)),
           (''features'', JList [])]"

definition history_entry :: "clock \<Rightarrow> string \<Rightarrow> string \<Rightarrow> json" where
  "history_entry clk edit_text source =
     JObj [(''editText'', JStr edit_text), (''appliedAt'', JStr (iso_time clk)),
           (''source'', JStr source)]"

text \<open>
  The rules of \<^verbatim>\<open>safe_patch\<close>, up to the point where \<^verbatim>\<open>applied\<close> is complete:
  colours, island, faster. There is no tower rule and no slower rule in this function.
\<close>

definition safe_patch_rules :: "clock \<Rightarrow> (string \<times> json) list \<Rightarrow> string \<Rightarrow>
    ((string \<times> json) list \<times> string list) result" where
  "safe_patch_rules clk base edit_text =
     (let patched = dict_setdefault ''assumptions'' (JList []) base;
          edit = py_lower edit_text
      in bind_res (foldM_res (color_rule (\<lambda>k. ''color:'' @ k) edit) color_map (patched, [])) (\<lambda>st1.
         bind_res
           (if wants_island edit
            then bind_res (setdefault_append (fst st1) ''structures'' (safe_island clk)) (\<lambda>d.
                 Inr (d, snd st1 @ [''added_island'']))
            else Inr st1) (\<lambda>st2.
         (if wants_faster edit
          then bind_res (for_entities (scale_speed (3 / 2) min10) (fst st2)) (\<lambda>d.
               Inr (d, snd st2 @ [''increased_speed'']))
          else Inr st2))))"

definition safe_patch :: "clock \<Rightarrow> json \<Rightarrow> string \<Rightarrow> json result" where
  "safe_patch clk base edit_text =
     (case base of
        JObj b \<Rightarrow>
          bind_res (safe_patch_rules clk b edit_text) (\<lambda>st.
          bind_res
            (append_at (fst st) ''assumptions''
               (JStr (if snd st = []
                      then recorded_note edit_text
                      else ''safe_patch_applied:'' @ py_join '','' (snd st)))) (\<lambda>d1.
          bind_res (setdefault_append d1 ''patchHistory'' (history_entry clk edit_text ''safe_patch''))
            (\<lambda>d2. Inr (JObj d2))))
      | _ \<Rightarrow> Inl AttributeError)"

section \<open>The stub text-edit transform (main.py)\<close>

text \<open>
  \<^verbatim>\<open>_ensure_lists\<close> stores an empty list under each of the three keys that is missing
  or not a list. \<^verbatim>\<open>random.uniform(a, b)\<close> is \<^verbatim>\<open>a + (b - a) * random()\<close>; the draws
  of \<^verbatim>\<open>random()\<close> are an input \<open>rnd\<close>, numbered in the order the code makes them.
\<close>

definition ensure_lists :: "(string \<times> json) list \<Rightarrow> (string \<times> json) list" where
  "ensure_lists d = ensure_array ''assumptions'' (ensure_array ''entities'' (ensure_array ''structures'' d))"

definition uniform :: "rat \<Rightarrow> rat \<Rightarrow> rat \<Rightarrow> rat" where
  "uniform a b u = a + (b - a) * u"

definition stub_island :: "clock \<Rightarrow> (nat \<Rightarrow> rat) \<Rightarrow> nat \<Rightarrow> json" where
  "stub_island clk rnd i =
     JObj [(''id'', JStr (''added_island_'' @ unix_time clk)),
           (''template'', JStr ''floating_island''),
           (''pos'', JList [JNum (uniform (- 30) 30 (rnd i)),
                            JNum (15 + uniform 0 5 (rnd (i + 1))),
                            JNum (uniform (- 30) 30 (rnd (i + 2)))]),
           (''scale'', JNum (4 / 5)),
           (''features'', JList [])]"

definition stub_tower :: "clock \<Rightarrow> (nat \<Rightarrow> rat) \<Rightarrow> nat \<Rightarrow> json" where
  "stub_tower clk rnd i =
     JObj [(''id'', JStr (''added_tower_'' @ unix_time clk)),
           (''template'', JStr ''crystal_tower''),
           (''pos'', JList [JNum (uniform (- 20) 20 (rnd i)),
                            JNum (10 + uniform 0 20 (rnd (i + 1))),
                            JNum (uniform (- 20) 20 (rnd (i + 2)))]),
           (''scale'', JNum (11 / 10)),
           (''features'', JList [])]"

definition stub_patch_rules :: "clock \<Rightarrow> (nat \<Rightarrow> rat) \<Rightarrow> (string \<times> json) list \<Rightarrow> string \<Rightarrow>
    ((string \<times> json) list \<times> string list) result" where
  "stub_patch_rules clk rnd base edit_text =
     (let patched = ensure_lists base;
          edit = py_lower edit_text
      in bind_res (foldM_res (color_rule (\<lambda>k. ''color -> '' @ k) edit) color_map (patched, [])) (\<lambda>st1.
         bind_res
           (if wants_island edit
            then bind_res (append_at (fst st1) ''structures'' (stub_island clk rnd 0)) (\<lambda>d.
                 Inr (d, snd st1 @ [''added floating_island'']))
            else Inr st1) (\<lambda>st2.
         bind_res
           (if wants_tower edit
            then bind_res (append_at (fst st2) ''structures''
                             (stub_tower clk rnd (if wants_island edit then 3 else 0))) (\<lambda>d.
                 Inr (d, snd st2 @ [''added crystal_tower'']))
            else Inr st2) (\<lambda>st3.
         bind_res
           (if wants_faster edit
            then bind_res (for_entities (scale_speed (3 / 2) min10) (fst st3)) (\<lambda>d.
                 Inr (d, snd st3 @ [''increased speed'']))
            else Inr st3) (\<lambda>st4.
         (if wants_slower edit
          then bind_res (for_entities (scale_speed (7 / 10) max001) (fst st4)) (\<lambda>d.
               Inr (d, snd st4 @ [''decreased speed'']))
          else Inr st4))))))"

definition stub_apply_patch :: "clock \<Rightarrow> (nat \<Rightarrow> rat) \<Rightarrow> json \<Rightarrow> string \<Rightarrow> json result" where
  "stub_apply_patch clk rnd base_json edit_text =
     (case base_json of
        JObj b \<Rightarrow>
          bind_res (stub_patch_rules clk rnd b edit_text) (\<lambda>st.
          bind_res
            (if snd st = []
             then bind_res (setdefault_append (fst st) ''assumptions'' (JStr (recorded_note edit_text)))
                    (\<lambda>d. Inr (d, [''recorded as assumption'']))
             else Inr st) (\<lambda>st'.
          bind_res (setdefault_append (fst st') ''patchHistory'' (history_entry clk edit_text ''stub'')) (\<lambda>d1.
          bind_res (setdefault_append d1 ''assumptions''
                      (JStr (''Stub patch applied: '' @ py_join '', '' (snd st')))) (\<lambda>d2.
          Inr (JObj d2)))))
      | _ \<Rightarrow> Inl TypeError)"

section \<open>The style-enrichment transform (utils/style_mapper.py)\<close>

record style_config =
  cfg_environment :: "(string \<times> json) list"
  cfg_speed :: rat
  cfg_glow :: rat
  cfg_color :: string

definition style_cfg :: "string \<Rightarrow> rat \<Rightarrow> string \<Rightarrow> rat \<Rightarrow> rat \<Rightarrow> rat \<Rightarrow> string \<Rightarrow> style_config" where
  "style_cfg preset fog sky light speed glow color =
     \<lparr>cfg_environment = [(''preset'', JStr preset), (''fog'', JNum fog),
                          (''skyColor'', JStr sky), (''ambientLight'', JNum light)],
      cfg_speed = speed, cfg_glow = glow, cfg_color = color\<rparr>"

definition ethereal_config :: style_config where
  "ethereal_config = style_cfg ''dusk'' (2 / 5) ''#a6d8ff'' (9 / 10) 1 (7 / 10) ''#ffffff''"

definition STYLE_CONFIGS :: "(string \<times> style_config) list" where
  "STYLE_CONFIGS =
     [(''ethereal'', ethereal_config),
      (''cyberpunk'', style_cfg ''night'' (1 / 5) ''#001133'' (2 / 5) 2 1 ''#00ffff''),
      (''surreal'', style_cfg ''void'' (3 / 5) ''#2d1a4a'' (3 / 5) (3 / 2) (9 / 10) ''#ff0080''),
      (''fantasy'', style_cfg ''dawn'' (3 / 10) ''#ffb347'' (11 / 10) (4 / 5) (3 / 5) ''#ffd700''),
      (''nightmare'', style_cfg ''night'' (7 / 10) ''#1a0d1a'' (1 / 5) (3 / 5) (3 / 10) ''#800020'')]"

definition get_style_config :: "string \<Rightarrow> style_config" where
  "get_style_config style =
     (case map_of STYLE_CONFIGS (py_lower style) of None \<Rightarrow> ethereal_config | Some c \<Rightarrow> c)"

text \<open>\<^verbatim>\<open>d.update(other)\<close>: the items of \<open>other\<close> are stored in their order.\<close>

definition dict_update :: "(string \<times> json) list \<Rightarrow> (string \<times> json) list \<Rightarrow> (string \<times> json) list" where
  "dict_update other d = foldl (\<lambda>acc kv. AList.update (fst kv) (snd kv) acc) d other"

text \<open>\<^verbatim>\<open>min(1.0, x)\<close>\<close>

definition min1 :: "rat \<Rightarrow> rat" where
  "min1 x = (if x < 1 then x else 1)"

text \<open>The body of \<^verbatim>\<open>for entity in out.get("entities", [])\<close> in \<^verbatim>\<open>apply_style\<close>.\<close>

definition style_entity :: "style_config \<Rightarrow> json \<Rightarrow> json result" where
  "style_entity cfg entity =
     (case entity of
        JObj d \<Rightarrow>
          (case (case map_of d ''params'' of None \<Rightarrow> JObj [] | Some p \<Rightarrow> p) of
             JObj p0 \<Rightarrow>
               (let p1 = AList.update ''color'' (JStr (cfg_color cfg)) p0
                in case num_of (case map_of p1 ''glow'' of None \<Rightarrow> JNum (1 / 2) | Some g \<Rightarrow> g) of
                     None \<Rightarrow> Inl TypeError
                   | Some g \<Rightarrow>
                       (let p2 = AList.update ''glow'' (JNum (min1 (g * cfg_glow cfg))) p1;
                            p3 = AList.update ''speed''
                                   (case map_of p2 ''speed'' of
                                      None \<Rightarrow> JNum (cfg_speed cfg) | Some v \<Rightarrow> v) p2
                        in Inr (JObj (AList.update ''params'' (JObj p3) d))))
           | _ \<Rightarrow> Inl TypeError)
      | _ \<Rightarrow> Inl AttributeError)"

definition style_note :: "string \<Rightarrow> string" where
  "style_note style = ''Deterministic style mapping applied -> '' @ style"

definition apply_style :: "json \<Rightarrow> string \<Rightarrow> json result" where
  "apply_style base style =
     (case base of
        JObj b \<Rightarrow>
          (let cfg = get_style_config style;
               out1 = dict_setdefault ''environment'' (JObj []) b
           in case map_of out1 ''environment'' of
                Some (JObj env) \<Rightarrow>
                  (let out2 = AList.update ''environment'' (JObj (dict_update (cfg_environment cfg) env)) out1;
                       out3 = AList.update ''style'' (JStr style) out2
                   in bind_res (for_entities (style_entity cfg) out3) (\<lambda>out4.
                      bind_res (setdefault_append out4 ''assumptions'' (JStr (style_note style))) (\<lambda>out5.
                      Inr (JObj out5))))
              | _ \<Rightarrow> Inl AttributeError)
      | _ \<Rightarrow> Inl AttributeError)"

section \<open>Extracting JSON from a response (utils/json_parser.py)\<close>

text \<open>
  \<^verbatim>\<open>json.loads\<close> belongs to Python's standard library, not to this repository: the
  functions below take it as the parameter \<open>loads\<close>, with \<open>None\<close> for a parse that
  raises. The response of the backend is a Python value; the client returns a string in
  most cases, and whatever the remote service put under \<^verbatim>\<open>text\<close> in the others.

  The scan of \<^verbatim>\<open>_extract_first_json_block\<close>: \<open>depth\<close> counts from the start of the
  text, and \<open>acc\<close> is \<^verbatim>\<open>text[start:i]\<close> once \<^verbatim>\<open>start\<close> is set.
\<close>

fun brace_scan :: "int \<Rightarrow> string option \<Rightarrow> string \<Rightarrow> string option" where
  "brace_scan depth acc [] = None"
| "brace_scan depth acc (ch # rest) =
     (if ch = CHR ''{''
      then brace_scan (depth + 1) (Some (case acc of None \<Rightarrow> [ch] | Some a \<Rightarrow> a @ [ch])) rest
      else if ch = CHR ''}''
      then (case acc of
              Some a \<Rightarrow> if depth - 1 = 0 then Some (a @ [ch])
                        else brace_scan (depth - 1) (Some (a @ [ch])) rest
            | None \<Rightarrow> brace_scan (depth - 1) None rest)
      else brace_scan depth (map_option (\<lambda>a. a @ [ch]) acc) rest)"

text \<open>
  \<^verbatim>\<open>re.search(r"(\{[\s\S]*\})", text)\<close>: from the first opening brace to the last closing
  brace after it.
\<close>

definition regex_block :: "string \<Rightarrow> string option" where
  "regex_block text =
     (let t = dropWhile (\<lambda>c. c \<noteq> CHR ''{'') text;
          r = rev (dropWhile (\<lambda>c. c \<noteq> CHR ''}'') (rev t))
      in if r = [] then None else Some r)"

definition extract_first_json_block :: "json \<Rightarrow> string option" where
  "extract_first_json_block text =
     (case text of
        JStr s \<Rightarrow>
          if s = [] then None
          else if CHR ''{'' \<notin> set s then None
          else (case brace_scan 0 None s of Some b \<Rightarrow> Some b | None \<Rightarrow> regex_block s)
      | _ \<Rightarrow> None)"

text \<open>
  \<^verbatim>\<open>re.sub(r",\s*([}\]])", r"\1", block)\<close>: a comma, then white space, then a closing
  brace or bracket, is replaced by the brace or bracket. White space is what \<^verbatim>\<open>\s\<close>
  matches among the ASCII characters.
\<close>

definition is_space :: "char \<Rightarrow> bool" where
  "is_space c = (c \<in> set [CHR 0x20, CHR 0x09, CHR 0x0A, CHR 0x0B, CHR 0x0C, CHR 0x0D,
                          CHR 0x1C, CHR 0x1D, CHR 0x1E, CHR 0x1F])"

function tidy :: "string \<Rightarrow> string" where
  "tidy [] = []"
| "tidy (c # cs) =
     (if c = CHR '',''
      then (case dropWhile is_space cs of
              [] \<Rightarrow> c # tidy cs
            | b # rest \<Rightarrow> if b = CHR ''}'' \<or> b = CHR '']'' then b # tidy rest else c # tidy cs)
      else c # tidy cs)"
  by pat_completeness auto
termination
proof (relation "measure length")
  fix c :: char and cs :: string and b rest
  assume "dropWhile is_space cs = b # rest"
  then have "length (b # rest) \<le> length cs"
    using length_dropWhile_le[of is_space cs] by simp
  then show "(rest, c # cs) \<in> measure length" by simp
qed auto

definition extract_json_from_text :: "(string \<Rightarrow> json option) \<Rightarrow> json \<Rightarrow> json option" where
  "extract_json_from_text loads text =
     (case extract_first_json_block text of
        None \<Rightarrow> None
      | Some block \<Rightarrow>
          (case loads block of
             Some v \<Rightarrow> Some v
           | None \<Rightarrow> loads (tidy block)))"

text \<open>
  \<^verbatim>\<open>parse_json_or_none\<close>: nothing for a false value; \<^verbatim>\<open>json.loads\<close> of anything but a
  string raises a \<^verbatim>\<open>TypeError\<close>, which the function catches.
\<close>

definition parse_json_or_none :: "(string \<Rightarrow> json option) \<Rightarrow> json \<Rightarrow> json option" where
  "parse_json_or_none loads text =
     (if \<not> truthy text then None
      else (case text of JStr s \<Rightarrow> loads s | _ \<Rightarrow> None))"

section \<open>The resolvers (services/patch_service.py, services/style_service.py)\<close>

text \<open>
  A prompt is a text built from the document, the instruction or style, and the options;
  the model keeps the three parts. The client is the parameter \<open>generate\<close>: it gets the
  prompt and the two options read with \<^verbatim>\<open>options.get\<close>, and returns the response or
  raises. All readings of the clock in one call are the same reading.
\<close>

datatype prompt =
    PatchPrompt json string json
  | StylePrompt json string json

type_synonym backend = "prompt \<Rightarrow> json \<Rightarrow> json \<Rightarrow> json result"

text \<open>\<^verbatim>\<open>d.setdefault("assumptions", []).append(x)\<close> on a document.\<close>

definition doc_append :: "string \<Rightarrow> json \<Rightarrow> json \<Rightarrow> json result" where
  "doc_append k x doc =
     (case doc of
        JObj d \<Rightarrow> bind_res (setdefault_append d k x) (\<lambda>d'. Inr (JObj d'))
      | _ \<Rightarrow> Inl AttributeError)"

text \<open>\<^verbatim>\<open>"k" in v\<close>\<close>

fun py_contains :: "json \<Rightarrow> string \<Rightarrow> bool result" where
  "py_contains (JObj d) k = Inr (map_of d k \<noteq> None)"
| "py_contains (JList xs) k = Inr (JStr k \<in> set xs)"
| "py_contains (JStr s) k = Inr (is_substring k s)"
| "py_contains _ k = Inl TypeError"

text \<open>
  \<^verbatim>\<open>patched["assumptions"] = patched.get("assumptions", []) + ["used_safe_fallback"]\<close>
\<close>

definition tag_safe_fallback :: "json \<Rightarrow> json result" where
  "tag_safe_fallback patched =
     (case patched of
        JObj d \<Rightarrow>
          (case (case map_of d ''assumptions'' of None \<Rightarrow> JList [] | Some v \<Rightarrow> v) of
             JList xs \<Rightarrow>
               Inr (JObj (AList.update ''assumptions'' (JList (xs @ [JStr ''used_safe_fallback''])) d))
           | _ \<Rightarrow> Inl TypeError)
      | _ \<Rightarrow> Inl AttributeError)"

text \<open>The body of the \<^verbatim>\<open>try\<close> block of \<^verbatim>\<open>apply_patch\<close>.\<close>

definition apply_patch_try :: "backend \<Rightarrow> (string \<Rightarrow> json option) \<Rightarrow> clock \<Rightarrow>
    json \<Rightarrow> string \<Rightarrow> json \<Rightarrow> json result" where
  "apply_patch_try generate loads clk base_json edit_text options =
     bind_res (py_get options ''max_tokens'' (JNum 1200)) (\<lambda>max_tokens.
     bind_res (py_get options ''temperature'' (JNum (7 / 10))) (\<lambda>temperature.
     bind_res (generate (PatchPrompt base_json edit_text options) max_tokens temperature) (\<lambda>response_text.
     (let patched0 = extract_json_from_text loads response_text;
          patched1 = (if (case patched0 of None \<Rightarrow> False | Some v \<Rightarrow> truthy v)
                      then patched0 else parse_json_or_none loads response_text)
      in case patched1 of
           Some (JObj p) \<Rightarrow>
             if p = [] then bind_res (safe_patch clk base_json edit_text) tag_safe_fallback
             else if fst (validate_dream (JObj p))
             then bind_res (if map_of p ''id'' = None
                            then bind_res (py_contains base_json ''id'') (\<lambda>base_has_id.
                                 if base_has_id
                                 then bind_res (py_getitem base_json ''id'') (\<lambda>i.
                                      Inr (AList.update ''id'' i p))
                                 else Inr p)
                            else Inr p) (\<lambda>p1.
                  bind_res (setdefault_append p1 ''patchHistory''
                              (history_entry clk edit_text ''llama-stylist'')) (\<lambda>p2.
                  Inr (JObj p2)))
             else bind_res (repair_dream clk (JObj p)) (\<lambda>repaired.
                  if fst (validate_dream repaired)
                  then doc_append ''assumptions'' (JStr ''auto-repaired after validation errors'') repaired
                  else bind_res (safe_patch clk base_json edit_text)
                         (doc_append ''assumptions'' (JStr ''fallback_after_failed_repair'')))
         | _ \<Rightarrow> bind_res (safe_patch clk base_json edit_text) tag_safe_fallback))))"

text \<open>
  \<^verbatim>\<open>apply_patch\<close>: \<^verbatim>\<open>options = options or {}\<close>, the \<^verbatim>\<open>try\<close> block, and the handler of
  \<^verbatim>\<open>except Exception\<close>, which runs \<^verbatim>\<open>safe_patch\<close> outside any \<^verbatim>\<open>try\<close>.
\<close>

definition apply_patch :: "backend \<Rightarrow> (string \<Rightarrow> json option) \<Rightarrow> clock \<Rightarrow>
    json \<Rightarrow> string \<Rightarrow> json \<Rightarrow> json result" where
  "apply_patch generate loads clk base_json edit_text options =
     (case apply_patch_try generate loads clk base_json edit_text
             (if truthy options then options else JObj []) of
        Inr r \<Rightarrow> Inr r
      | Inl e \<Rightarrow>
          bind_res (safe_patch clk base_json edit_text)
            (doc_append ''assumptions'' (JStr ''fallback_on_exception'')))"

text \<open>
  \<^verbatim>\<open>parsed.setdefault("style", target_style)\<close> and
  \<^verbatim>\<open>parsed.setdefault("metadata", {}).update({"enrichedBy": ..., "targetStyle": ...})\<close>
\<close>

definition merge_metadata :: "string \<Rightarrow> (string \<times> json) list \<Rightarrow> json result" where
  "merge_metadata target_style p =
     (let p1 = dict_setdefault ''style'' (JStr target_style) p
      in case (case map_of p1 ''metadata'' of None \<Rightarrow> JObj [] | Some v \<Rightarrow> v) of
           JObj md \<Rightarrow>
             Inr (JObj (AList.update ''metadata''
                    (JObj (dict_update [(''enrichedBy'', JStr ''llama-stylist''),
                                        (''targetStyle'', JStr target_style)] md)) p1))
         | _ \<Rightarrow> Inl AttributeError)"

definition enrich_style_try :: "backend \<Rightarrow> (string \<Rightarrow> json option) \<Rightarrow> clock \<Rightarrow>
    json \<Rightarrow> string \<Rightarrow> json \<Rightarrow> json result" where
  "enrich_style_try generate loads clk base_json target_style options =
     bind_res (py_get options ''max_tokens'' (JNum 800)) (\<lambda>max_tokens.
     bind_res (py_get options ''temperature'' (JNum (7 / 10))) (\<lambda>temperature.
     bind_res (generate (StylePrompt base_json target_style options) max_tokens temperature) (\<lambda>response_text.
     (let parsed0 = extract_json_from_text loads response_text;
          parsed1 = (if (case parsed0 of None \<Rightarrow> False | Some v \<Rightarrow> truthy v)
                     then parsed0 else parse_json_or_none loads response_text)
      in case parsed1 of
           Some (JObj p) \<Rightarrow>
             if p = []
             then bind_res (apply_style base_json target_style)
                    (doc_append ''assumptions'' (JStr ''applied_deterministic_style_mapper''))
             else if fst (validate_dream (JObj p))
             then merge_metadata target_style p
             else bind_res (repair_dream clk (JObj p)) (\<lambda>repaired.
                  if fst (validate_dream repaired)
                  then doc_append ''assumptions'' (JStr ''repaired_enriched_result'') repaired
                  else bind_res (apply_style base_json target_style)
                         (doc_append ''assumptions'' (JStr ''fallback_after_failed_repair'')))
         | _ \<Rightarrow> bind_res (apply_style base_json target_style)
                  (doc_append ''assumptions'' (JStr ''applied_deterministic_style_mapper''))))))"

definition enrich_style :: "backend \<Rightarrow> (string \<Rightarrow> json option) \<Rightarrow> clock \<Rightarrow>
    json \<Rightarrow> string \<Rightarrow> json \<Rightarrow> json result" where
  "enrich_style generate loads clk base_json target_style options =
     (case enrich_style_try generate loads clk base_json target_style
             (if truthy options then options else JObj []) of
        Inr r \<Rightarrow> Inr r
      | Inl e \<Rightarrow>
          bind_res (apply_style base_json target_style)
            (doc_append ''assumptions'' (JStr ''fallback_on_exception'')))"

section \<open>A reading of \<^verbatim>\<open>json.loads\<close> for closed instances\<close>

text \<open>
  The general theorems hold for any \<open>loads\<close>. Where a statement needs the result of
  parsing a given text, it uses \<open>json_loads\<close>: a recursive-descent parser for the JSON
  grammar as Python reads it (white space is space, tab, line feed and carriage return; a
  repeated key keeps its first place and its last value; text after the value is an
  error). Numbers are exact rationals, \<^verbatim>\<open>\u\<close> escapes are read for ASCII code points
  only, and the literals \<^verbatim>\<open>NaN\<close> and \<^verbatim>\<open>Infinity\<close>, which Python accepts, have no value
  here. The first argument of the parsing functions bounds the number of steps; the
  length of the text is enough.
\<close>

definition json_ws :: "char \<Rightarrow> bool" where
  "json_ws c = (c \<in> set [CHR 0x20, CHR 0x09, CHR 0x0A, CHR 0x0D])"

definition skip_ws :: "string \<Rightarrow> string" where
  "skip_ws s = dropWhile json_ws s"

definition digit_val :: "char \<Rightarrow> nat option" where
  "digit_val c = map_of (zip ''0123456789'' [0, 1, 2, 3, 4, 5, 6, 7, 8, 9]) c"

definition hex_val :: "char \<Rightarrow> nat option" where
  "hex_val c = map_of (zip ''0123456789abcdefABCDEF''
                        [0, 1, 2, 3, 4, 5, 6, 7, 8, 9, 10, 11, 12, 13, 14, 15, 10, 11, 12, 13, 14, 15]) c"

text \<open>The digits at the front of a text: their value, their number, and the rest.\<close>

fun take_digits :: "nat \<Rightarrow> nat \<Rightarrow> string \<Rightarrow> nat \<times> nat \<times> string" where
  "take_digits acc n [] = (acc, n, [])"
| "take_digits acc n (c # cs) =
     (case digit_val c of
        None \<Rightarrow> (acc, n, c # cs)
      | Some d \<Rightarrow> take_digits (10 * acc + d) (Suc n) cs)"

definition parse_escape :: "string \<Rightarrow> (char \<times> string) option" where
  "parse_escape s =
     (case s of
        [] \<Rightarrow> None
      | e # rest \<Rightarrow>
          if e = CHR ''u''
          then (case rest of
                  a # b # c # d # rest' \<Rightarrow>
                    (case (hex_val a, hex_val b, hex_val c, hex_val d) of
                       (Some x3, Some x2, Some x1, Some x0) \<Rightarrow>
                         if x3 = 0 \<and> x2 = 0 \<and> x1 < 8
                         then Some (char_of (16 * x1 + x0), rest') else None
                     | _ \<Rightarrow> None)
                | _ \<Rightarrow> None)
          else (case map_of [(CHR 0x22, CHR 0x22), (CHR 0x5C, CHR 0x5C), (CHR ''/'', CHR ''/''),
                             (CHR ''b'', CHR 0x08), (CHR ''f'', CHR 0x0C), (CHR ''n'', CHR 0x0A),
                             (CHR ''r'', CHR 0x0D), (CHR ''t'', CHR 0x09)] e of
                  None \<Rightarrow> None
                | Some c \<Rightarrow> Some (c, rest)))"

fun parse_string_body :: "nat \<Rightarrow> string \<Rightarrow> string \<Rightarrow> (string \<times> string) option" where
  "parse_string_body 0 acc s = None"
| "parse_string_body (Suc n) acc [] = None"
| "parse_string_body (Suc n) acc (c # cs) =
     (if c = CHR 0x22 then Some (acc, cs)
      else if c = CHR 0x5C
      then (case parse_escape cs of
              None \<Rightarrow> None
            | Some (e, rest) \<Rightarrow> parse_string_body n (acc @ [e]) rest)
      else if of_char c < (32 :: nat) then None
      else parse_string_body n (acc @ [c]) cs)"

definition parse_number :: "string \<Rightarrow> (rat \<times> string) option" where
  "parse_number s =
     (let neg = (case s of c # _ \<Rightarrow> c = CHR ''-'' | [] \<Rightarrow> False);
          s1 = (if neg then tl s else s);
          (ip, ni, s2) = take_digits 0 0 s1
      in if ni = 0 \<or> (ni > 1 \<and> hd s1 = CHR ''0'') then None
         else
           (let frac = (case s2 of
                          c # s3 \<Rightarrow>
                            if c = CHR ''.''
                            then (let (fp, nf, s4) = take_digits 0 0 s3
                                  in if nf = 0 then None else Some (of_nat fp / 10 ^ nf, s4))
                            else Some (0, s2)
                        | [] \<Rightarrow> Some (0, s2))
            in case frac of
                 None \<Rightarrow> None
               | Some (fr, s5) \<Rightarrow>
                   (let mant = (if neg then - (of_nat ip + fr) else of_nat ip + fr)
                    in case s5 of
                         c # s6 \<Rightarrow>
                           if c = CHR ''e'' \<or> c = CHR ''E''
                           then (let eneg = (case s6 of d # _ \<Rightarrow> d = CHR ''-'' | [] \<Rightarrow> False);
                                     epos = (case s6 of d # _ \<Rightarrow> d = CHR ''+'' | [] \<Rightarrow> False);
                                     s7 = (if eneg \<or> epos then tl s6 else s6);
                                     (ev, ne, s8) = take_digits 0 0 s7
                                 in if ne = 0 then None
                                    else Some (if eneg then mant / 10 ^ ev else mant * 10 ^ ev, s8))
                           else Some (mant, s5)
                       | [] \<Rightarrow> Some (mant, s5))))"

fun parse_value :: "nat \<Rightarrow> string \<Rightarrow> (json \<times> string) option"
  and parse_members :: "nat \<Rightarrow> (string \<times> json) list \<Rightarrow> string \<Rightarrow> (json \<times> string) option"
  and parse_elements :: "nat \<Rightarrow> json list \<Rightarrow> string \<Rightarrow> (json \<times> string) option" where
  "parse_value 0 s = None"
| "parse_value (Suc n) s =
     (case skip_ws s of
        [] \<Rightarrow> None
      | c # cs \<Rightarrow>
          if c = CHR ''{''
          then (case skip_ws cs of
                  [] \<Rightarrow> None
                | d # ds \<Rightarrow> if d = CHR ''}'' then Some (JObj [], ds) else parse_members n [] (d # ds))
          else if c = CHR ''[''
          then (case skip_ws cs of
                  [] \<Rightarrow> None
                | d # ds \<Rightarrow> if d = CHR '']'' then Some (JList [], ds) else parse_elements n [] (d # ds))
          else if c = CHR 0x22
          then (case parse_string_body (length cs) [] cs of
                  None \<Rightarrow> None
                | Some (str, rest) \<Rightarrow> Some (JStr str, rest))
          else if starts_with ''true'' (c # cs) then Some (JBool True, drop 4 (c # cs))
          else if starts_with ''false'' (c # cs) then Some (JBool False, drop 5 (c # cs))
          else if starts_with ''null'' (c # cs) then Some (JNull, drop 4 (c # cs))
          else (case parse_number (c # cs) of
                  None \<Rightarrow> None
                | Some (r, rest) \<Rightarrow> Some (JNum r, rest)))"
| "parse_members 0 acc s = None"
| "parse_members (Suc n) acc s =
     (case s of
        [] \<Rightarrow> None
      | q # s1 \<Rightarrow>
          if q \<noteq> CHR 0x22 then None
          else (case parse_string_body (length s1) [] s1 of
                  None \<Rightarrow> None
                | Some (key, s2) \<Rightarrow>
                    (case skip_ws s2 of
                       [] \<Rightarrow> None
                     | c # s3 \<Rightarrow>
                         if c \<noteq> CHR '':'' then None
                         else (case parse_value n s3 of
                                 None \<Rightarrow> None
                               | Some (v, s4) \<Rightarrow>
                                   (case skip_ws s4 of
                                      [] \<Rightarrow> None
                                    | d # s5 \<Rightarrow>
                                        if d = CHR ''}'' then Some (JObj (AList.update key v acc), s5)
                                        else if d = CHR '',''
                                        then parse_members n (AList.update key v acc) (skip_ws s5)
                                        else None)))))"
| "parse_elements 0 acc s = None"
| "parse_elements (Suc n) acc s =
     (case parse_value n s of
        None \<Rightarrow> None
      | Some (v, s1) \<Rightarrow>
          (case skip_ws s1 of
             [] \<Rightarrow> None
           | d # s2 \<Rightarrow>
               if d = CHR '']'' then Some (JList (acc @ [v]), s2)
               else if d = CHR '','' then parse_elements n (acc @ [v]) s2
               else None))"



section \<open>Observations on documents\<close>

text \<open>
  The parts of a document the properties speak about: its entities (the items of the
  \<^verbatim>\<open>entities\<close> list), one parameter of an entity (\<^verbatim>\<open>e["params"][k]\<close>), the
  \<^verbatim>\<open>skyColor\<close> of the environment, the assumptions, and whether
  \<^verbatim>\<open>patched.get("environment")\<close> is true. The colour keywords found in a text are kept
  in the order of \<^verbatim>\<open>color_map\<close>, which is the order the loop visits them in.
\<close>

definition entities_of :: "json \<Rightarrow> json list" where
  "entities_of doc = (case doc of JObj d \<Rightarrow> (case map_of d ''entities'' of Some (JList es) \<Rightarrow> es | _ \<Rightarrow> []) | _ \<Rightarrow> [])"

definition entity_param :: "string \<Rightarrow> json \<Rightarrow> json option" where
  "entity_param k e = (case e of JObj d \<Rightarrow> (case map_of d ''params'' of Some (JObj p) \<Rightarrow> map_of p k | _ \<Rightarrow> None) | _ \<Rightarrow> None)"

definition env_truthy :: "(string \<times> json) list \<Rightarrow> bool" where
  "env_truthy d = (case map_of d ''environment'' of None \<Rightarrow> False | Some e \<Rightarrow> truthy e)"

definition sky_color :: "json \<Rightarrow> json option" where
  "sky_color doc = (case doc of JObj d \<Rightarrow> (case map_of d ''environment'' of Some (JObj e) \<Rightarrow> map_of e ''skyColor'' | _ \<Rightarrow> None) | _ \<Rightarrow> None)"

definition params_agree_except :: "string \<Rightarrow> json \<Rightarrow> json \<Rightarrow> bool" where
  "params_agree_except k e e' = (\<forall>k'. k' \<noteq> k \<longrightarrow> entity_param k' e' = entity_param k' e)"

definition colors_present :: "string \<Rightarrow> (string \<times> string) list" where
  "colors_present edit = filter (\<lambda>kv. is_substring (fst kv) edit) color_map"

definition assumptions_of :: "json \<Rightarrow> json list" where
  "assumptions_of doc = (case doc of JObj d \<Rightarrow> (case map_of d ''assumptions'' of Some (JList xs) \<Rightarrow> xs | _ \<Rightarrow> []) | _ \<Rightarrow> [])"

definition last_color :: "string \<Rightarrow> json" where
  "last_color edit = JStr (snd (last (colors_present edit)))"

definition speed_in :: "json \<Rightarrow> json" where
  "speed_in e = (case entity_param ''speed'' e of None \<Rightarrow> JNum 1 | Some v \<Rightarrow> v)"

definition speed_becomes :: "(rat \<Rightarrow> rat) \<Rightarrow> json \<Rightarrow> json \<Rightarrow> bool" where
  "speed_becomes g e e' =
     (case num_of (speed_in e) of None \<Rightarrow> False | Some x \<Rightarrow> entity_param ''speed'' e' = Some (JNum (g x)))"

definition speed_kept :: "json \<Rightarrow> json \<Rightarrow> bool" where
  "speed_kept e e' = (entity_param ''speed'' e' = entity_param ''speed'' e)"

definition doc_field :: "string \<Rightarrow> json \<Rightarrow> json option" where
  "doc_field k doc = (case doc of JObj d \<Rightarrow> map_of d k | _ \<Rightarrow> None)"

text \<open>A clock reading for the closed instances below.\<close>

definition clock0 :: clock where
  "clock0 = \<lparr>unix_time = ''1700000000'', iso_time = ''2023-11-14T22:13:20Z''\<rparr>"

text \<open>The key \<open>k\<close> of a document holds a list.\<close>

definition has_list :: "string \<Rightarrow> json \<Rightarrow> bool" where
  "has_list k doc = (case doc_field k doc of Some (JList xs) \<Rightarrow> True | _ \<Rightarrow> False)"

section \<open>Properties\<close>

subsection \<open>Helper facts about the dict operations\<close>

lemma setdefault_append_other:
  "setdefault_append d k x = Inr d' \<Longrightarrow> k' \<noteq> k \<Longrightarrow> map_of d' k' = map_of d k'"
  by (auto simp: setdefault_append_def update_conv' split: option.splits json.splits)

lemma bind_res_Inr: "bind_res m f = Inr y \<longleftrightarrow> (\<exists>x. m = Inr x \<and> f x = Inr y)"
  by (cases m) (simp_all add: bind_res_def)

subsection \<open>The repairer\<close>

lemma repair_cinematography_ok:
  assumes "repair_cinematography rep c = Inr c'"
  shows "map_of c' ''durationSec'' \<noteq> None \<and> (\<exists>x xs. map_of c' ''shots'' = Some (JList (x # xs)))"
  using assms
  by (auto simp: repair_cinematography_def bind_res_def update_conv' split: if_splits sum.splits option.splits json.splits list.splits)

lemma ensure_array_other: "k' \<noteq> k \<Longrightarrow> map_of (ensure_array k d) k' = map_of d k'"
  by (simp add: ensure_array_def update_conv')

lemma repair_dream_fields:
  assumes "repair_dream clk d = Inr r"
  shows "\<exists>d7 s c x xs. r = JObj d7 \<and> map_of d7 ''id'' \<noteq> None \<and> map_of d7 ''title'' \<noteq> None
     \<and> map_of d7 ''style'' = Some s \<and> in_style_enum s
     \<and> map_of d7 ''cinematography'' = Some (JObj c) \<and> map_of c ''durationSec'' \<noteq> None
     \<and> map_of c ''shots'' = Some (JList (x # xs))"
proof -
  obtain d0 where d: "d = JObj d0"
    using assms by (cases d) (simp_all add: repair_dream_def)
  define d1 where "d1 = AList.update ''id''
                      (case map_of d0 ''id'' of
                         None \<Rightarrow> JStr (''repaired_'' @ unix_time clk) | Some v \<Rightarrow> v) d0"
  define d2 where "d2 = AList.update ''title''
                      (case map_of d1 ''title'' of
                         None \<Rightarrow> JStr ''Repaired Dream'' | Some v \<Rightarrow> v) d1"
  define d3 where "d3 = (if in_style_enum (case map_of d2 ''style'' of None \<Rightarrow> JNull | Some v \<Rightarrow> v)
                     then d2 else AList.update ''style'' (JStr ''ethereal'') d2)"
  define d5 where "d5 = ensure_array ''entities'' (ensure_array ''structures'' d3)"
  define step where "step = (case map_of d5 ''cinematography'' of
                   Some (JObj c) \<Rightarrow>
                     bind_res (repair_cinematography d5 c) (\<lambda>c'.
                     Inr (AList.update ''cinematography'' (JObj c') d5))
                 | _ \<Rightarrow>
                     bind_res (establish_target d5) (\<lambda>t.
                     Inr (AList.update ''cinematography''
                            (JObj [(''durationSec'', JNum 30),
                                   (''shots'', JList [establish_shot t (JNum 30)])]) d5)))"
  have r: "bind_res step (\<lambda>d6. bind_res (setdefault_append d6 ''assumptions'' (JStr ''auto_repaired_missing_fields''))
                (\<lambda>d7. Inr (JObj d7))) = Inr r"
    using assms unfolding d repair_dream_def d1_def d2_def d3_def d5_def step_def Let_def by simp
  then obtain d6 d7 where d6: "step = Inr d6"
    and d7: "setdefault_append d6 ''assumptions'' (JStr ''auto_repaired_missing_fields'') = Inr d7"
    and rd7: "r = JObj d7"
    by (auto simp: bind_res_Inr)
  have id5: "map_of d5 ''id'' \<noteq> None" and t5: "map_of d5 ''title'' \<noteq> None"
    by (simp_all add: d5_def d3_def d2_def d1_def ensure_array_other update_conv')
  have "\<exists>s. map_of d3 ''style'' = Some s \<and> in_style_enum s"
    by (cases "map_of d2 ''style''") (auto simp: d3_def update_conv' in_style_enum_def STYLE_NAMES_def)
  then obtain s where s5: "map_of d5 ''style'' = Some s" "in_style_enum s"
    by (auto simp: d5_def ensure_array_other)
  have oth: "k \<noteq> ''cinematography'' \<Longrightarrow> map_of d6 k = map_of d5 k" for k
    using d6 unfolding step_def
    by (auto simp: bind_res_Inr update_conv' split: option.splits json.splits)
  have "\<exists>c x xs. map_of d6 ''cinematography'' = Some (JObj c) \<and> map_of c ''durationSec'' \<noteq> None
     \<and> map_of c ''shots'' = Some (JList (x # xs))"
    using d6 unfolding step_def
    by (auto simp: bind_res_Inr update_conv' dest: repair_cinematography_ok split: option.splits json.splits)
  then obtain c x xs where c6: "map_of d6 ''cinematography'' = Some (JObj c)" "map_of c ''durationSec'' \<noteq> None"
     "map_of c ''shots'' = Some (JList (x # xs))" by blast
  have k7: "k \<noteq> ''assumptions'' \<Longrightarrow> map_of d7 k = map_of d6 k" for k
    using setdefault_append_other[OF d7] by simp
  show ?thesis
    using rd7 id5 t5 s5 c6 by (simp add: k7 oth)
qed


text \<open>
  Claim C4: \<^verbatim>\<open>repair_dream\<close> is total on mapping documents, whatever the shape of
  their fields. The code raises instead: a first structure without an \<^verbatim>\<open>id\<close> gives a
  \<^verbatim>\<open>KeyError\<close> at \<^verbatim>\<open>repaired["structures"][0]["id"]\<close>, a first structure that is not
  a mapping a \<^verbatim>\<open>TypeError\<close>, an \<^verbatim>\<open>assumptions\<close> field that is not a list an
  \<^verbatim>\<open>AttributeError\<close> at \<^verbatim>\<open>.append\<close>, and shots that are not mappings an
  \<^verbatim>\<open>AttributeError\<close> at \<^verbatim>\<open>s.get\<close> when \<^verbatim>\<open>durationSec\<close> is missing.
\<close>

theorem repair_dream_raises:
  "repair_dream clk (JObj [(''structures'', JList [JObj []])]) = Inl KeyError
   \<and> repair_dream clk (JObj [(''structures'', JList [JNum 1])]) = Inl TypeError
   \<and> repair_dream clk (JObj [(''assumptions'', JStr ''x'')]) = Inl AttributeError
   \<and> repair_dream clk (JObj [(''cinematography'', JObj [(''shots'', JList [JNum 1])])])
       = Inl AttributeError"
  by (simp add: repair_dream_def ensure_array_def establish_target_def bind_res_def
      in_style_enum_def STYLE_NAMES_def setdefault_append_def establish_shot_def
      repair_cinematography_def derived_duration_def)

text \<open>
  Claim C3: for any mapping document missing \<^verbatim>\<open>id\<close>, \<^verbatim>\<open>title\<close>, \<^verbatim>\<open>style\<close> or
  \<^verbatim>\<open>cinematography\<close>, \<^verbatim>\<open>validate_dream(repair_dream(d))\<close> is \<^verbatim>\<open>(True, [])\<close>. The
  document \<^verbatim>\<open>{"structures": [{}]}\<close> misses all four, and the composition has no value
  on it: \<^verbatim>\<open>repair_dream\<close> raises the \<^verbatim>\<open>KeyError\<close> of claim C4 at
  \<^verbatim>\<open>repaired["structures"][0]["id"]\<close>, so no document reaches the validator.
\<close>

theorem repair_then_validate_raises:
  "bind_res (repair_dream clk (JObj [(''structures'', JList [JObj []])]))
     (\<lambda>r. Inr (validate_dream r)) = Inl KeyError
   \<and> map (map_of [(''structures'', JList [JObj []])])
         [''id'', ''title'', ''style'', ''cinematography''] = [None, None, None, None]"
  by (simp add: repair_dream_def ensure_array_def establish_target_def bind_res_def
      in_style_enum_def STYLE_NAMES_def)

text \<open>
  The raise is the only way the property fails: whenever \<^verbatim>\<open>repair_dream\<close> returns a
  document, that document has \<^verbatim>\<open>id\<close> and \<^verbatim>\<open>title\<close>, a \<^verbatim>\<open>style\<close> among the five
  names, a \<^verbatim>\<open>cinematography\<close> mapping with \<^verbatim>\<open>durationSec\<close> and a non-empty
  \<^verbatim>\<open>shots\<close> list, and \<^verbatim>\<open>validate_dream\<close> accepts it with no error.
\<close>

lemma repair_result_valid:
  assumes "repair_dream clk d = Inr r"
  shows "validate_dream r = (True, [])
     \<and> (\<exists>d' s c x xs. r = JObj d' \<and> map_of d' ''id'' \<noteq> None \<and> map_of d' ''title'' \<noteq> None
           \<and> map_of d' ''style'' = Some (JStr s) \<and> s \<in> set STYLE_NAMES
           \<and> map_of d' ''cinematography'' = Some (JObj c) \<and> map_of c ''durationSec'' \<noteq> None
           \<and> map_of c ''shots'' = Some (JList (x # xs)))"
proof -
  from repair_dream_fields[OF assms] obtain d7 s c x xs where f:
    "r = JObj d7" "map_of d7 ''id'' \<noteq> None" "map_of d7 ''title'' \<noteq> None"
     "map_of d7 ''style'' = Some s" "in_style_enum s"
     "map_of d7 ''cinematography'' = Some (JObj c)" "map_of c ''durationSec'' \<noteq> None"
     "map_of c ''shots'' = Some (JList (x # xs))" by blast
  then have v: "validate_dream r = (True, [])"
    by (simp add: validate_dream_def REQUIRED_FIELDS_def)
  from f(5) obtain n where "s = JStr n" "n \<in> set STYLE_NAMES"
    by (cases s) (simp_all add: in_style_enum_def)
  with f v show ?thesis by blast
qed

lemma repair_result_valid_empty:
  "repair_dream \<lparr>unix_time = ''1700000000'', iso_time = ''2023-11-14T22:13:20Z''\<rparr> (JObj [])
     = Inr (JObj
       [(''id'', JStr ''repaired_1700000000''),
        (''title'', JStr ''Repaired Dream''),
        (''style'', JStr ''ethereal''), (''structures'', JList []),
        (''entities'', JList []),
        (''cinematography'',
         JObj [(''durationSec'', JNum 30),
               (''shots'', JList [JObj [(''type'', JStr ''establish''), (''target'', JStr ''s1''),
                                        (''duration'', JNum 30)]])]),
        (''assumptions'', JList [JStr ''auto_repaired_missing_fields''])])
   \<and> validate_dream (JObj
       [(''id'', JStr ''repaired_1700000000''),
        (''title'', JStr ''Repaired Dream''),
        (''style'', JStr ''ethereal''), (''structures'', JList []),
        (''entities'', JList []),
        (''cinematography'',
         JObj [(''durationSec'', JNum 30),
               (''shots'', JList [JObj [(''type'', JStr ''establish''), (''target'', JStr ''s1''),
                                        (''duration'', JNum 30)]])]),
        (''assumptions'', JList [JStr ''auto_repaired_missing_fields''])]) = (True, [])"
proof -
  have h: "repair_dream \<lparr>unix_time = ''1700000000'', iso_time = ''2023-11-14T22:13:20Z''\<rparr> (JObj [])
     = Inr (JObj
       [(''id'', JStr ''repaired_1700000000''),
        (''title'', JStr ''Repaired Dream''),
        (''style'', JStr ''ethereal''), (''structures'', JList []),
        (''entities'', JList []),
        (''cinematography'',
         JObj [(''durationSec'', JNum 30),
               (''shots'', JList [JObj [(''type'', JStr ''establish''), (''target'', JStr ''s1''),
                                        (''duration'', JNum 30)]])]),
        (''assumptions'', JList [JStr ''auto_repaired_missing_fields''])])"
    by (simp add: repair_dream_def ensure_array_def establish_target_def bind_res_def
      in_style_enum_def STYLE_NAMES_def setdefault_append_def establish_shot_def)
  from repair_result_valid[OF h] h show ?thesis by blast
qed

subsection \<open>The text-edit rules\<close>

lemma mapM_res_all2: "mapM_res f xs = Inr ys \<Longrightarrow> list_all2 (\<lambda>x y. f x = Inr y) xs ys"
  by (induction xs arbitrary: ys) (auto split: sum.splits)

lemma for_entities_other:
  "for_entities body d = Inr d' \<Longrightarrow> k \<noteq> ''entities'' \<Longrightarrow> map_of d' k = map_of d k"
  by (auto simp: for_entities_def bind_res_Inr update_conv' split: option.splits json.splits)

lemma for_entities_all2:
  assumes "for_entities body d = Inr d'"
  shows "list_all2 (\<lambda>x y. body x = Inr y) (entities_of (JObj d)) (entities_of (JObj d'))"
proof (cases "map_of d ''entities''")
  case None
  with assms show ?thesis by (simp add: for_entities_def entities_of_def)
next
  case (Some v)
  show ?thesis
  proof (cases v)
    case (JList es)
    with Some assms show ?thesis
      by (auto simp: for_entities_def entities_of_def bind_res_Inr update_conv' dest: mapM_res_all2)
  qed (use Some assms in \<open>auto simp: for_entities_def entities_of_def bind_res_Inr\<close>)
qed

lemma set_param_same: "set_param k v e = Inr e' \<Longrightarrow> k' \<noteq> k \<Longrightarrow> entity_param k' e' = entity_param k' e"
  by (auto simp: set_param_def entity_param_def update_conv' split: json.splits option.splits)

lemma set_param_val: "set_param k v e = Inr e' \<Longrightarrow> entity_param k e' = Some v"
  by (auto simp: set_param_def entity_param_def update_conv' split: json.splits option.splits)

lemma scale_speed_same: "scale_speed f c e = Inr e' \<Longrightarrow> k' \<noteq> ''speed'' \<Longrightarrow> entity_param k' e' = entity_param k' e"
  by (auto simp: scale_speed_def entity_param_def update_conv' split: json.splits option.splits)

lemma scale_speed_val: "scale_speed f c e = Inr e' \<Longrightarrow>
   \<exists>x. num_of (case entity_param ''speed'' e of None \<Rightarrow> JNum 1 | Some v \<Rightarrow> v) = Some x \<and> entity_param ''speed'' e' = Some (JNum (c (x * f)))"
  by (auto simp: scale_speed_def entity_param_def update_conv' split: json.splits option.splits)

lemma set_sky_color_other: "set_sky_color v d = Inr d' \<Longrightarrow> k \<noteq> ''environment'' \<Longrightarrow> map_of d' k = map_of d k"
  by (auto simp: set_sky_color_def update_conv' split: json.splits option.splits if_splits)

lemma set_sky_color_env:
  "set_sky_color v d = Inr d' \<Longrightarrow>
     (env_truthy d' = env_truthy d) \<and>
     (env_truthy d \<longrightarrow> sky_color (JObj d') = Some v) \<and>
     (\<not> env_truthy d \<longrightarrow> d' = d)"
  by (auto simp: set_sky_color_def env_truthy_def sky_color_def update_conv' split: json.splits option.splits if_splits)

lemma all2_set_right: "list_all2 P xs ys \<Longrightarrow> (\<And>x y. P x y \<Longrightarrow> Q y) \<Longrightarrow> \<forall>y \<in> set ys. Q y"
  by (induction rule: list_all2_induct) auto

lemma color_rule_skip: "\<not> is_substring (fst kv) edit \<Longrightarrow> color_rule label edit kv st = Inr st"
  by (simp add: color_rule_def)

lemma color_rule_hit:
  assumes "color_rule label edit kv st = Inr st'" "is_substring (fst kv) edit"
  shows "snd st' = snd st @ [label (fst kv)]"
    and "\<forall>e \<in> set (entities_of (JObj (fst st'))). entity_param ''color'' e = Some (JStr (snd kv))"
    and "list_all2 (params_agree_except ''color'') (entities_of (JObj (fst st))) (entities_of (JObj (fst st')))"
    and "env_truthy (fst st') = env_truthy (fst st)"
    and "env_truthy (fst st) \<Longrightarrow> sky_color (JObj (fst st')) = Some (JStr (snd kv))"
    and "\<not> env_truthy (fst st) \<Longrightarrow> map_of (fst st') ''environment'' = map_of (fst st) ''environment''"
    and "k \<noteq> ''entities'' \<Longrightarrow> k \<noteq> ''environment'' \<Longrightarrow> map_of (fst st') k = map_of (fst st) k"
proof -
  from assms obtain d1 d2 where
    d1: "for_entities (set_param ''color'' (JStr (snd kv))) (fst st) = Inr d1"
    and d2: "set_sky_color (JStr (snd kv)) d1 = Inr d2"
    and st': "st' = (d2, snd st @ [label (fst kv)])"
    by (auto simp: color_rule_def bind_res_Inr)
  show "snd st' = snd st @ [label (fst kv)]" by (simp add: st')
  have ent: "map_of d2 ''entities'' = map_of d1 ''entities''"
    using set_sky_color_other[OF d2] by simp
  then have ents: "entities_of (JObj d2) = entities_of (JObj d1)"
    by (simp add: entities_of_def)
  have env1: "map_of d1 ''environment'' = map_of (fst st) ''environment''"
    using for_entities_other[OF d1] by simp
  then have et1: "env_truthy d1 = env_truthy (fst st)" by (simp add: env_truthy_def)
  from for_entities_all2[OF d1]
  have a2: "list_all2 (\<lambda>x y. set_param ''color'' (JStr (snd kv)) x = Inr y)
              (entities_of (JObj (fst st))) (entities_of (JObj d1))" .
  show "\<forall>e \<in> set (entities_of (JObj (fst st'))). entity_param ''color'' e = Some (JStr (snd kv))"
    using all2_set_right[OF a2, of "\<lambda>e. entity_param ''color'' e = Some (JStr (snd kv))"]
    by (simp add: st' ents set_param_val)
  show "list_all2 (params_agree_except ''color'') (entities_of (JObj (fst st))) (entities_of (JObj (fst st')))"
    using list_all2_mono[OF a2, of "params_agree_except ''color''"]
    by (simp add: st' ents params_agree_except_def set_param_same)
  show "env_truthy (fst st') = env_truthy (fst st)"
    using set_sky_color_env[OF d2] et1 by (simp add: st')
  show "env_truthy (fst st) \<Longrightarrow> sky_color (JObj (fst st')) = Some (JStr (snd kv))"
    using set_sky_color_env[OF d2] et1 by (simp add: st')
  show "\<not> env_truthy (fst st) \<Longrightarrow> map_of (fst st') ''environment'' = map_of (fst st) ''environment''"
    using set_sky_color_env[OF d2] et1 env1 by (simp add: st')
  show "k \<noteq> ''entities'' \<Longrightarrow> k \<noteq> ''environment'' \<Longrightarrow> map_of (fst st') k = map_of (fst st) k"
    using set_sky_color_other[OF d2, of k] for_entities_other[OF d1, of k] by (simp add: st')
qed

lemma foldM_res_filter:
  "(\<And>x st. \<not> P x \<Longrightarrow> f x st = Inr st) \<Longrightarrow> foldM_res f (filter P xs) st = foldM_res f xs st"
  by (induction xs arbitrary: st) (auto split: sum.splits)

lemma foldM_res_snoc:
  "foldM_res f (xs @ [x]) st = bind_res (foldM_res f xs st) (f x)"
  by (induction xs arbitrary: st) (auto simp: bind_res_def split: sum.splits)

lemma params_agree_refl: "params_agree_except k e e"
  by (simp add: params_agree_except_def)

lemma params_agree_trans: "params_agree_except k a b \<Longrightarrow> params_agree_except k b c \<Longrightarrow> params_agree_except k a c"
  by (simp add: params_agree_except_def)

lemma all2_agree_refl: "list_all2 (params_agree_except k) es es"
  by (simp add: list_all2_refl params_agree_refl)

lemma all2_agree_trans:
  "list_all2 (params_agree_except k) as bs \<Longrightarrow> list_all2 (params_agree_except k) bs cs
    \<Longrightarrow> list_all2 (params_agree_except k) as cs"
  using list_all2_trans[of "params_agree_except k" "params_agree_except k" "params_agree_except k" as bs cs]
  by (blast intro: params_agree_trans)

lemma color_fold_inv:
  assumes "foldM_res (color_rule label edit) cm st = Inr st'"
  shows "snd st' = snd st @ map (\<lambda>kv. label (fst kv)) (filter (\<lambda>kv. is_substring (fst kv) edit) cm)
     \<and> list_all2 (params_agree_except ''color'') (entities_of (JObj (fst st))) (entities_of (JObj (fst st')))
     \<and> env_truthy (fst st') = env_truthy (fst st)
     \<and> (\<not> env_truthy (fst st) \<longrightarrow> map_of (fst st') ''environment'' = map_of (fst st) ''environment'')
     \<and> (\<forall>k. k \<noteq> ''entities'' \<and> k \<noteq> ''environment'' \<longrightarrow> map_of (fst st') k = map_of (fst st) k)"
  using assms
proof (induction cm arbitrary: st)
  case Nil
  then show ?case by (simp add: all2_agree_refl)
next
  case (Cons kv cm)
  show ?case
  proof (cases "is_substring (fst kv) edit")
    case False
    with Cons.prems have "foldM_res (color_rule label edit) cm st = Inr st'"
      by (simp add: color_rule_skip)
    from Cons.IH[OF this] False show ?thesis by simp
  next
    case True
    from Cons.prems obtain st1 where s1: "color_rule label edit kv st = Inr st1"
      and s2: "foldM_res (color_rule label edit) cm st1 = Inr st'"
      by (auto split: sum.splits)
    note h = color_rule_hit[OF s1 True]
    note ih = Cons.IH[OF s2]
    have "list_all2 (params_agree_except ''color'') (entities_of (JObj (fst st))) (entities_of (JObj (fst st')))"
      using all2_agree_trans[OF h(3)] ih by blast
    moreover have "\<forall>k. k \<noteq> ''entities'' \<and> k \<noteq> ''environment'' \<longrightarrow> map_of (fst st') k = map_of (fst st) k"
      using h(7) ih by simp
    ultimately show ?thesis
      using True h(1) h(4) h(6) ih by simp
  qed
qed

lemma color_fold_last:
  assumes "foldM_res (color_rule label edit) cm st = Inr st'"
    and ne: "filter (\<lambda>kv. is_substring (fst kv) edit) cm \<noteq> []"
  shows "(\<forall>e \<in> set (entities_of (JObj (fst st'))).
            entity_param ''color'' e = Some (JStr (snd (last (filter (\<lambda>kv. is_substring (fst kv) edit) cm)))))
     \<and> (env_truthy (fst st) \<longrightarrow>
            sky_color (JObj (fst st')) = Some (JStr (snd (last (filter (\<lambda>kv. is_substring (fst kv) edit) cm)))))"
proof -
  let ?P = "\<lambda>kv. is_substring (fst kv) edit"
  let ?f = "color_rule label edit"
  define ys where "ys = butlast (filter ?P cm)"
  define y where "y = last (filter ?P cm)"
  have split: "filter ?P cm = ys @ [y]"
    using ne by (simp add: ys_def y_def)
  have "y \<in> set (filter ?P cm)" unfolding y_def using ne by (rule last_in_set)
  then have py: "?P y" by simp
  have "foldM_res ?f (filter ?P cm) st = Inr st'"
    using assms(1) foldM_res_filter[of ?P ?f cm st] by (simp add: color_rule_skip)
  then have "bind_res (foldM_res ?f ys st) (?f y) = Inr st'"
    by (simp add: split foldM_res_snoc)
  then obtain st1 where s1: "foldM_res ?f ys st = Inr st1" and s2: "?f y st1 = Inr st'"
    by (auto simp: bind_res_Inr)
  have et: "env_truthy (fst st1) = env_truthy (fst st)"
    using color_fold_inv[OF s1] by simp
  note h = color_rule_hit[OF s2 py]
  show ?thesis
    using h(2) h(5) et unfolding y_def by simp
qed

lemma append_at_other: "append_at d k x = Inr d' \<Longrightarrow> k' \<noteq> k \<Longrightarrow> map_of d' k' = map_of d k'"
  by (auto simp: append_at_def update_conv' split: option.splits json.splits)

lemma append_at_val: "append_at d k x = Inr d' \<Longrightarrow> \<exists>xs. map_of d k = Some (JList xs) \<and> map_of d' k = Some (JList (xs @ [x]))"
  by (auto simp: append_at_def update_conv' split: option.splits json.splits)

lemma setdefault_append_val: "setdefault_append d k x = Inr d' \<Longrightarrow>
   (map_of d k = None \<and> map_of d' k = Some (JList [x])) \<or> (\<exists>xs. map_of d k = Some (JList xs) \<and> map_of d' k = Some (JList (xs @ [x])))"
  by (auto simp: setdefault_append_def update_conv' split: option.splits json.splits)

lemma dict_setdefault_other: "k' \<noteq> k \<Longrightarrow> map_of (dict_setdefault k v d) k' = map_of d k'"
  by (simp add: dict_setdefault_def update_conv' split: option.splits)

lemma dict_setdefault_val: "map_of (dict_setdefault k v d) k = Some (case map_of d k of None \<Rightarrow> v | Some w \<Rightarrow> w)"
  by (simp add: dict_setdefault_def update_conv' split: option.splits)

lemma entities_of_cong: "map_of d' ''entities'' = map_of d ''entities'' \<Longrightarrow> entities_of (JObj d') = entities_of (JObj d)"
  by (simp add: entities_of_def)

lemma sky_color_cong: "map_of d' ''environment'' = map_of d ''environment'' \<Longrightarrow> sky_color (JObj d') = sky_color (JObj d)"
  by (simp add: sky_color_def)

lemma env_truthy_cong: "map_of d' ''environment'' = map_of d ''environment'' \<Longrightarrow> env_truthy d' = env_truthy d"
  by (simp add: env_truthy_def)

text \<open>One optional rule step that appends to structures.\<close>

lemma structure_step_sd:
  assumes "(if c then bind_res (setdefault_append (fst st) ''structures'' x) (\<lambda>d. Inr (d, snd st @ [l])) else Inr st) = Inr st'"
  shows "snd st' = snd st @ (if c then [l] else [])"
    and "k \<noteq> ''structures'' \<Longrightarrow> map_of (fst st') k = map_of (fst st) k"
    and "\<not> c \<Longrightarrow> st' = st"
  using assms by (auto simp: bind_res_Inr split: if_splits dest: setdefault_append_other)

lemma structure_step_at:
  assumes "(if c then bind_res (append_at (fst st) ''structures'' x) (\<lambda>d. Inr (d, snd st @ [l])) else Inr st) = Inr st'"
  shows "snd st' = snd st @ (if c then [l] else [])"
    and "k \<noteq> ''structures'' \<Longrightarrow> map_of (fst st') k = map_of (fst st) k"
    and "\<not> c \<Longrightarrow> st' = st"
  using assms by (auto simp: bind_res_Inr split: if_splits dest: append_at_other)

text \<open>One optional rule step that rescales the speed of every entity.\<close>

lemma speed_step:
  assumes "(if c then bind_res (for_entities (scale_speed f cl) (fst st)) (\<lambda>d. Inr (d, snd st @ [l])) else Inr st) = Inr st'"
  shows "snd st' = snd st @ (if c then [l] else [])"
    and "k \<noteq> ''entities'' \<Longrightarrow> map_of (fst st') k = map_of (fst st) k"
    and "list_all2 (params_agree_except ''speed'') (entities_of (JObj (fst st))) (entities_of (JObj (fst st')))"
    and "c \<Longrightarrow> list_all2 (\<lambda>e e'. scale_speed f cl e = Inr e') (entities_of (JObj (fst st))) (entities_of (JObj (fst st')))"
    and "\<not> c \<Longrightarrow> st' = st"
proof -
  show "snd st' = snd st @ (if c then [l] else [])"
    using assms by (auto simp: bind_res_Inr split: if_splits)
  show "k \<noteq> ''entities'' \<Longrightarrow> map_of (fst st') k = map_of (fst st) k"
    using assms by (auto simp: bind_res_Inr split: if_splits dest: for_entities_other)
  show c: "c \<Longrightarrow> list_all2 (\<lambda>e e'. scale_speed f cl e = Inr e') (entities_of (JObj (fst st))) (entities_of (JObj (fst st')))"
    using assms by (auto simp: bind_res_Inr split: if_splits dest: for_entities_all2)
  show n: "\<not> c \<Longrightarrow> st' = st" using assms by simp
  show "list_all2 (params_agree_except ''speed'') (entities_of (JObj (fst st))) (entities_of (JObj (fst st')))"
  proof (cases c)
    case True
    from list_all2_mono[OF c[OF True], of "params_agree_except ''speed''"]
    show ?thesis by (simp add: params_agree_except_def scale_speed_same)
  next
    case False
    with n show ?thesis by (simp add: all2_agree_refl)
  qed
qed

lemma all2_color_preserved:
  assumes "list_all2 (params_agree_except k) es es'" "k \<noteq> k'" "\<forall>e \<in> set es. entity_param k' e = v"
  shows "\<forall>e \<in> set es'. entity_param k' e = v"
  using assms by (induction rule: list_all2_induct) (auto simp: params_agree_except_def)

lemma scale_speed_becomes: "scale_speed f cl e = Inr e' \<Longrightarrow> speed_becomes (\<lambda>x. cl (x * f)) e e'"
  using scale_speed_val[of f cl e e'] by (auto simp: speed_becomes_def speed_in_def)

lemma agree_color_speed_kept: "params_agree_except ''color'' e e' \<Longrightarrow> speed_kept e e'"
  by (simp add: params_agree_except_def speed_kept_def)

lemma speed_kept_then_becomes: "speed_kept a b \<Longrightarrow> speed_becomes g b c \<Longrightarrow> speed_becomes g a c"
  by (simp add: speed_kept_def speed_becomes_def speed_in_def)

lemma speed_becomes_then_becomes:
  "speed_becomes g a b \<Longrightarrow> speed_becomes h b c \<Longrightarrow> speed_becomes (\<lambda>x. h (g x)) a c"
  by (auto simp: speed_becomes_def speed_in_def split: option.splits)

lemma all2_kept_becomes:
  "list_all2 speed_kept as bs \<Longrightarrow> list_all2 (speed_becomes g) bs cs \<Longrightarrow> list_all2 (speed_becomes g) as cs"
  using list_all2_trans[of speed_kept "speed_becomes g" "speed_becomes g" as bs cs]
  by (blast intro: speed_kept_then_becomes)

lemma all2_becomes_becomes:
  "list_all2 (speed_becomes g) as bs \<Longrightarrow> list_all2 (speed_becomes h) bs cs
     \<Longrightarrow> list_all2 (speed_becomes (\<lambda>x. h (g x))) as cs"
  using list_all2_trans[of "speed_becomes g" "speed_becomes h" "speed_becomes (\<lambda>x. h (g x))" as bs cs]
  by (blast intro: speed_becomes_then_becomes)

lemma all2_agree_kept: "list_all2 (params_agree_except ''color'') as bs \<Longrightarrow> list_all2 speed_kept as bs"
  by (erule list_all2_mono) (rule agree_color_speed_kept)

lemma all2_scale_becomes:
  "list_all2 (\<lambda>e e'. scale_speed f cl e = Inr e') as bs \<Longrightarrow> list_all2 (speed_becomes (\<lambda>x. cl (x * f))) as bs"
  by (erule list_all2_mono) (rule scale_speed_becomes)

lemma color_fold_colors:
  assumes "foldM_res (color_rule label edit) color_map st = Inr st'"
    and "colors_present edit \<noteq> []"
  shows "\<forall>e \<in> set (entities_of (JObj (fst st'))). entity_param ''color'' e = Some (last_color edit)"
    and "env_truthy (fst st) \<Longrightarrow> sky_color (JObj (fst st')) = Some (last_color edit)"
  using color_fold_last[OF assms(1) assms(2)[unfolded colors_present_def]]
  unfolding last_color_def colors_present_def by blast+

lemma safe_patch_rules_summary:
  assumes "safe_patch_rules clk b edit_text = Inr st"
  shows "snd st = map (\<lambda>kv. ''color:'' @ fst kv) (colors_present (py_lower edit_text))
                  @ (if wants_island (py_lower edit_text) then [''added_island''] else [])
                  @ (if wants_faster (py_lower edit_text) then [''increased_speed''] else [])" (is ?A)
    and "k \<noteq> ''entities'' \<Longrightarrow> k \<noteq> ''environment'' \<Longrightarrow> k \<noteq> ''structures'' \<Longrightarrow>
           map_of (fst st) k = map_of (dict_setdefault ''assumptions'' (JList []) b) k"
    and "colors_present (py_lower edit_text) \<noteq> [] \<Longrightarrow>
           \<forall>e \<in> set (entities_of (JObj (fst st))). entity_param ''color'' e = Some (last_color (py_lower edit_text))"
    and "colors_present (py_lower edit_text) \<noteq> [] \<Longrightarrow> env_truthy b \<Longrightarrow>
           sky_color (JObj (fst st)) = Some (last_color (py_lower edit_text))"
    and "\<not> env_truthy b \<Longrightarrow> map_of (fst st) ''environment'' = map_of b ''environment''"
    and "wants_faster (py_lower edit_text) \<Longrightarrow>
           list_all2 (speed_becomes (\<lambda>x. min10 (x * (3 / 2)))) (entities_of (JObj b)) (entities_of (JObj (fst st)))"
    and "\<not> wants_faster (py_lower edit_text) \<Longrightarrow>
           list_all2 speed_kept (entities_of (JObj b)) (entities_of (JObj (fst st)))"
    and "\<not> wants_island (py_lower edit_text) \<Longrightarrow> map_of (fst st) ''structures'' = map_of b ''structures''"
proof -
  let ?e = "py_lower edit_text"
  let ?b0 = "dict_setdefault ''assumptions'' (JList []) b"
  from assms obtain st1 st2 where
    s1: "foldM_res (color_rule (\<lambda>k. ''color:'' @ k) ?e) color_map (?b0, []) = Inr st1"
    and s2: "(if wants_island ?e
            then bind_res (setdefault_append (fst st1) ''structures'' (safe_island clk)) (\<lambda>d.
                 Inr (d, snd st1 @ [''added_island'']))
            else Inr st1) = Inr st2"
    and s3: "(if wants_faster ?e
          then bind_res (for_entities (scale_speed (3 / 2) min10) (fst st2)) (\<lambda>d.
               Inr (d, snd st2 @ [''increased_speed'']))
          else Inr st2) = Inr st"
    unfolding safe_patch_rules_def Let_def bind_res_Inr by blast
  note c0 = color_fold_inv[OF s1]
  have c1: "snd st1 = map (\<lambda>kv. ''color:'' @ fst kv) (colors_present ?e)"
    using c0[THEN conjunct1] by (simp add: colors_present_def)
  have c2: "list_all2 (params_agree_except ''color'') (entities_of (JObj ?b0)) (entities_of (JObj (fst st1)))"
    using c0[THEN conjunct2, THEN conjunct1] by simp
  have c4: "\<not> env_truthy ?b0 \<Longrightarrow> map_of (fst st1) ''environment'' = map_of ?b0 ''environment''"
    using c0[THEN conjunct2, THEN conjunct2, THEN conjunct2, THEN conjunct1] by simp
  have c5: "k \<noteq> ''entities'' \<Longrightarrow> k \<noteq> ''environment'' \<Longrightarrow> map_of (fst st1) k = map_of ?b0 k" for k
    using c0[THEN conjunct2, THEN conjunct2, THEN conjunct2, THEN conjunct2] by simp
  note i = structure_step_sd[OF s2]
  note f = speed_step[OF s3]
  have b0e: "entities_of (JObj ?b0) = entities_of (JObj b)"
    by (rule entities_of_cong) (simp add: dict_setdefault_other)
  have b0v: "map_of ?b0 ''environment'' = map_of b ''environment''"
    by (simp add: dict_setdefault_other)
  have e12: "entities_of (JObj (fst st2)) = entities_of (JObj (fst st1))"
    by (rule entities_of_cong) (simp add: i(2))
  have v12: "map_of (fst st) ''environment'' = map_of (fst st1) ''environment''"
    by (simp add: i(2) f(2))
  show ?A unfolding f(1) i(1) c1 by simp
  show "k \<noteq> ''entities'' \<Longrightarrow> k \<noteq> ''environment'' \<Longrightarrow> k \<noteq> ''structures'' \<Longrightarrow>
           map_of (fst st) k = map_of ?b0 k"
    by (simp add: i(2) f(2) c5)
  show "\<not> env_truthy b \<Longrightarrow> map_of (fst st) ''environment'' = map_of b ''environment''"
    using c4 env_truthy_cong[OF b0v] by (simp add: v12 b0v)
  have k1: "list_all2 speed_kept (entities_of (JObj b)) (entities_of (JObj (fst st2)))"
    using all2_agree_kept[OF c2] by (simp add: e12 b0e)
  show "wants_faster ?e \<Longrightarrow>
           list_all2 (speed_becomes (\<lambda>x. min10 (x * (3 / 2)))) (entities_of (JObj b)) (entities_of (JObj (fst st)))"
    using all2_kept_becomes[OF k1 all2_scale_becomes[OF f(4)]] by simp
  show "\<not> wants_faster ?e \<Longrightarrow> list_all2 speed_kept (entities_of (JObj b)) (entities_of (JObj (fst st)))"
    using k1 f(5) by simp
  show "\<not> wants_island ?e \<Longrightarrow> map_of (fst st) ''structures'' = map_of b ''structures''"
    using i(3) by (simp add: f(2) c5 dict_setdefault_other)
  assume ne: "colors_present ?e \<noteq> []"
  note l = color_fold_colors[OF s1 ne]
  have "\<forall>e \<in> set (entities_of (JObj (fst st2))). entity_param ''color'' e = Some (last_color ?e)"
    unfolding e12 by (rule l(1))
  then show "\<forall>e \<in> set (entities_of (JObj (fst st))). entity_param ''color'' e = Some (last_color ?e)"
    by (rule all2_color_preserved[OF f(3), rotated]) simp
  assume "env_truthy b"
  then have "env_truthy ?b0" by (simp add: env_truthy_cong[OF b0v])
  then show "sky_color (JObj (fst st)) = Some (last_color ?e)"
    using l(2) by (simp add: sky_color_cong[OF v12])
qed

lemma ensure_array_entities: "entities_of (JObj (ensure_array k d)) = entities_of (JObj d)"
  by (cases "k = ''entities''")
     (auto simp: ensure_array_def entities_of_def update_conv' split: option.splits json.splits)

lemma ensure_lists_entities: "entities_of (JObj (ensure_lists d)) = entities_of (JObj d)"
  by (simp add: ensure_lists_def ensure_array_entities)

lemma ensure_lists_other:
  "k \<noteq> ''structures'' \<Longrightarrow> k \<noteq> ''entities'' \<Longrightarrow> k \<noteq> ''assumptions'' \<Longrightarrow>
     map_of (ensure_lists d) k = map_of d k"
  by (simp add: ensure_lists_def ensure_array_other)

lemma all2_kept_kept:
  "list_all2 speed_kept as bs \<Longrightarrow> list_all2 speed_kept bs cs \<Longrightarrow> list_all2 speed_kept as cs"
  using list_all2_trans[of speed_kept speed_kept speed_kept as bs cs]
  by (auto simp: speed_kept_def)

lemma stub_patch_rules_summary:
  assumes "stub_patch_rules clk rnd b edit_text = Inr st"
  shows "snd st = map (\<lambda>kv. ''color -> '' @ fst kv) (colors_present (py_lower edit_text))
                  @ (if wants_island (py_lower edit_text) then [''added floating_island''] else [])
                  @ (if wants_tower (py_lower edit_text) then [''added crystal_tower''] else [])
                  @ (if wants_faster (py_lower edit_text) then [''increased speed''] else [])
                  @ (if wants_slower (py_lower edit_text) then [''decreased speed''] else [])" (is ?A)
    and "k \<noteq> ''entities'' \<Longrightarrow> k \<noteq> ''environment'' \<Longrightarrow> k \<noteq> ''structures'' \<Longrightarrow>
           map_of (fst st) k = map_of (ensure_lists b) k"
    and "colors_present (py_lower edit_text) \<noteq> [] \<Longrightarrow>
           \<forall>e \<in> set (entities_of (JObj (fst st))). entity_param ''color'' e = Some (last_color (py_lower edit_text))"
    and "colors_present (py_lower edit_text) \<noteq> [] \<Longrightarrow> env_truthy b \<Longrightarrow>
           sky_color (JObj (fst st)) = Some (last_color (py_lower edit_text))"
    and "\<not> env_truthy b \<Longrightarrow> map_of (fst st) ''environment'' = map_of b ''environment''"
    and "wants_faster (py_lower edit_text) \<Longrightarrow> \<not> wants_slower (py_lower edit_text) \<Longrightarrow>
           list_all2 (speed_becomes (\<lambda>x. min10 (x * (3 / 2)))) (entities_of (JObj b)) (entities_of (JObj (fst st)))"
    and "\<not> wants_faster (py_lower edit_text) \<Longrightarrow> wants_slower (py_lower edit_text) \<Longrightarrow>
           list_all2 (speed_becomes (\<lambda>x. max001 (x * (7 / 10)))) (entities_of (JObj b)) (entities_of (JObj (fst st)))"
    and "wants_faster (py_lower edit_text) \<Longrightarrow> wants_slower (py_lower edit_text) \<Longrightarrow>
           list_all2 (speed_becomes (\<lambda>x. max001 (min10 (x * (3 / 2)) * (7 / 10))))
             (entities_of (JObj b)) (entities_of (JObj (fst st)))"
    and "\<not> wants_faster (py_lower edit_text) \<Longrightarrow> \<not> wants_slower (py_lower edit_text) \<Longrightarrow>
           list_all2 speed_kept (entities_of (JObj b)) (entities_of (JObj (fst st)))"
proof -
  let ?e = "py_lower edit_text"
  let ?b0 = "ensure_lists b"
  from assms obtain st1 st2 st3 st4 where
    s1: "foldM_res (color_rule (\<lambda>k. ''color -> '' @ k) ?e) color_map (?b0, []) = Inr st1"
    and s2: "(if wants_island ?e
            then bind_res (append_at (fst st1) ''structures'' (stub_island clk rnd 0)) (\<lambda>d.
                 Inr (d, snd st1 @ [''added floating_island'']))
            else Inr st1) = Inr st2"
    and s3: "(if wants_tower ?e
            then bind_res (append_at (fst st2) ''structures''
                             (stub_tower clk rnd (if wants_island ?e then 3 else 0))) (\<lambda>d.
                 Inr (d, snd st2 @ [''added crystal_tower'']))
            else Inr st2) = Inr st3"
    and s4: "(if wants_faster ?e
            then bind_res (for_entities (scale_speed (3 / 2) min10) (fst st3)) (\<lambda>d.
                 Inr (d, snd st3 @ [''increased speed'']))
            else Inr st3) = Inr st4"
    and s5: "(if wants_slower ?e
          then bind_res (for_entities (scale_speed (7 / 10) max001) (fst st4)) (\<lambda>d.
               Inr (d, snd st4 @ [''decreased speed'']))
          else Inr st4) = Inr st"
    unfolding stub_patch_rules_def Let_def bind_res_Inr by blast
  note c0 = color_fold_inv[OF s1]
  have c1: "snd st1 = map (\<lambda>kv. ''color -> '' @ fst kv) (colors_present ?e)"
    using c0[THEN conjunct1] by (simp add: colors_present_def)
  have c2: "list_all2 (params_agree_except ''color'') (entities_of (JObj ?b0)) (entities_of (JObj (fst st1)))"
    using c0[THEN conjunct2, THEN conjunct1] by simp
  have c4: "\<not> env_truthy ?b0 \<Longrightarrow> map_of (fst st1) ''environment'' = map_of ?b0 ''environment''"
    using c0[THEN conjunct2, THEN conjunct2, THEN conjunct2, THEN conjunct1] by simp
  have c5: "k \<noteq> ''entities'' \<Longrightarrow> k \<noteq> ''environment'' \<Longrightarrow> map_of (fst st1) k = map_of ?b0 k" for k
    using c0[THEN conjunct2, THEN conjunct2, THEN conjunct2, THEN conjunct2] by simp
  note i = structure_step_at[OF s2]
  note t = structure_step_at[OF s3]
  note f = speed_step[OF s4]
  note g = speed_step[OF s5]
  have b0v: "map_of ?b0 ''environment'' = map_of b ''environment''"
    by (simp add: ensure_lists_other)
  have e13: "entities_of (JObj (fst st3)) = entities_of (JObj (fst st1))"
    by (rule entities_of_cong) (simp add: i(2) t(2))
  have v12: "map_of (fst st) ''environment'' = map_of (fst st1) ''environment''"
    by (simp add: i(2) t(2) f(2) g(2))
  show ?A unfolding g(1) f(1) t(1) i(1) c1 by simp
  show "k \<noteq> ''entities'' \<Longrightarrow> k \<noteq> ''environment'' \<Longrightarrow> k \<noteq> ''structures'' \<Longrightarrow>
           map_of (fst st) k = map_of ?b0 k"
    by (simp add: i(2) t(2) f(2) g(2) c5)
  show "\<not> env_truthy b \<Longrightarrow> map_of (fst st) ''environment'' = map_of b ''environment''"
    using c4 env_truthy_cong[OF b0v] by (simp add: v12 b0v)
  have k1: "list_all2 speed_kept (entities_of (JObj b)) (entities_of (JObj (fst st3)))"
    using all2_agree_kept[OF c2] by (simp add: e13 ensure_lists_entities)
  show "wants_faster ?e \<Longrightarrow> \<not> wants_slower ?e \<Longrightarrow>
           list_all2 (speed_becomes (\<lambda>x. min10 (x * (3 / 2)))) (entities_of (JObj b)) (entities_of (JObj (fst st)))"
    using all2_kept_becomes[OF k1 all2_scale_becomes[OF f(4)]] g(5) by simp
  show "\<not> wants_faster ?e \<Longrightarrow> wants_slower ?e \<Longrightarrow>
           list_all2 (speed_becomes (\<lambda>x. max001 (x * (7 / 10)))) (entities_of (JObj b)) (entities_of (JObj (fst st)))"
    using all2_kept_becomes[OF k1, of "\<lambda>x. max001 (x * (7 / 10))"] all2_scale_becomes[OF g(4)] f(5) by simp
  show "wants_faster ?e \<Longrightarrow> wants_slower ?e \<Longrightarrow>
           list_all2 (speed_becomes (\<lambda>x. max001 (min10 (x * (3 / 2)) * (7 / 10))))
             (entities_of (JObj b)) (entities_of (JObj (fst st)))"
    using all2_becomes_becomes[OF all2_kept_becomes[OF k1 all2_scale_becomes[OF f(4)]] all2_scale_becomes[OF g(4)]]
    by simp
  show "\<not> wants_faster ?e \<Longrightarrow> \<not> wants_slower ?e \<Longrightarrow>
           list_all2 speed_kept (entities_of (JObj b)) (entities_of (JObj (fst st)))"
    using k1 f(5) g(5) by simp
  assume ne: "colors_present ?e \<noteq> []"
  note l = color_fold_colors[OF s1 ne]
  have "\<forall>e \<in> set (entities_of (JObj (fst st3))). entity_param ''color'' e = Some (last_color ?e)"
    unfolding e13 by (rule l(1))
  then have "\<forall>e \<in> set (entities_of (JObj (fst st4))). entity_param ''color'' e = Some (last_color ?e)"
    by (rule all2_color_preserved[OF f(3), rotated]) simp
  then show "\<forall>e \<in> set (entities_of (JObj (fst st))). entity_param ''color'' e = Some (last_color ?e)"
    by (rule all2_color_preserved[OF g(3), rotated]) simp
  assume "env_truthy b"
  then have "env_truthy ?b0" by (simp add: env_truthy_cong[OF b0v])
  then show "sky_color (JObj (fst st)) = Some (last_color ?e)"
    using l(2) by (simp add: sky_color_cong[OF v12])
qed

lemma assumptions_after_append:
  assumes "map_of d ''assumptions'' = Some (JList (xs @ [x]))"
    and "map_of b ''assumptions'' = None \<and> xs = [] \<or> map_of b ''assumptions'' = Some (JList xs)"
  shows "assumptions_of (JObj d) = assumptions_of (JObj b) @ [x]"
  using assms by (auto simp: assumptions_of_def)

lemma safe_patch_summary:
  assumes "safe_patch clk (JObj b) edit_text = Inr r"
  shows "\<exists>st d. safe_patch_rules clk b edit_text = Inr st \<and> r = JObj d
     \<and> (\<forall>k. k \<noteq> ''assumptions'' \<and> k \<noteq> ''patchHistory'' \<longrightarrow> map_of d k = map_of (fst st) k)
     \<and> assumptions_of r = assumptions_of (JObj b) @
          [JStr (if snd st = [] then recorded_note edit_text
                 else ''safe_patch_applied:'' @ py_join '','' (snd st))]"
proof -
  let ?note = "\<lambda>st. JStr (if snd st = [] then recorded_note edit_text
                 else ''safe_patch_applied:'' @ py_join '','' (snd st))"
  from assms obtain st d1 d2 where
    s: "safe_patch_rules clk b edit_text = Inr st"
    and a: "append_at (fst st) ''assumptions'' (?note st) = Inr d1"
    and h: "setdefault_append d1 ''patchHistory'' (history_entry clk edit_text ''safe_patch'') = Inr d2"
    and r: "r = JObj d2"
    unfolding safe_patch_def json.case bind_res_Inr by blast
  have fr: "map_of d2 k = map_of (fst st) k" if "k \<noteq> ''assumptions''" "k \<noteq> ''patchHistory''" for k
    using setdefault_append_other[OF h, of k] append_at_other[OF a, of k] that by simp
  from append_at_val[OF a] obtain xs where
    x0: "map_of (fst st) ''assumptions'' = Some (JList xs)"
    and x1: "map_of d1 ''assumptions'' = Some (JList (xs @ [?note st]))" by blast
  have x2: "map_of d2 ''assumptions'' = Some (JList (xs @ [?note st]))"
    using setdefault_append_other[OF h, of "''assumptions''"] x1 by simp
  have "map_of (fst st) ''assumptions'' = map_of (dict_setdefault ''assumptions'' (JList []) b) ''assumptions''"
    by (rule safe_patch_rules_summary(2)[OF s]) simp_all
  then have "map_of b ''assumptions'' = None \<and> xs = [] \<or> map_of b ''assumptions'' = Some (JList xs)"
    using x0 by (auto simp: dict_setdefault_val split: option.splits)
  from assumptions_after_append[OF x2 this] fr s r show ?thesis by blast
qed

lemma ensure_array_val:
  "map_of (ensure_array k d) k = Some (case map_of d k of None \<Rightarrow> JList [] | Some v \<Rightarrow> if is_list v then v else JList [])"
  by (simp add: ensure_array_def update_conv')

lemma ensure_lists_assumptions: "\<exists>xs. map_of (ensure_lists b) ''assumptions'' = Some (JList xs) \<and> xs = assumptions_of (JObj b)"
proof (cases "map_of b ''assumptions''")
  case None
  then show ?thesis by (simp add: ensure_lists_def ensure_array_val ensure_array_other assumptions_of_def)
next
  case (Some v)
  then show ?thesis
    by (cases v) (simp_all add: ensure_lists_def ensure_array_val ensure_array_other assumptions_of_def)
qed

lemma stub_apply_patch_summary:
  assumes "stub_apply_patch clk rnd (JObj b) edit_text = Inr r"
  shows "\<exists>st d. stub_patch_rules clk rnd b edit_text = Inr st \<and> r = JObj d
     \<and> (\<forall>k. k \<noteq> ''assumptions'' \<and> k \<noteq> ''patchHistory'' \<longrightarrow> map_of d k = map_of (fst st) k)
     \<and> assumptions_of r = assumptions_of (JObj b) @
          (if snd st = [] then [JStr (recorded_note edit_text)] else []) @
          [JStr (''Stub patch applied: '' @
                 py_join '', '' (if snd st = [] then [''recorded as assumption''] else snd st))]"
proof -
  from assms obtain st st' d1 d2 where
    s: "stub_patch_rules clk rnd b edit_text = Inr st"
    and a: "(if snd st = []
             then bind_res (setdefault_append (fst st) ''assumptions'' (JStr (recorded_note edit_text)))
                    (\<lambda>d. Inr (d, [''recorded as assumption'']))
             else Inr st) = Inr st'"
    and h: "setdefault_append (fst st') ''patchHistory'' (history_entry clk edit_text ''stub'') = Inr d1"
    and f: "setdefault_append d1 ''assumptions''
                      (JStr (''Stub patch applied: '' @ py_join '', '' (snd st'))) = Inr d2"
    and r: "r = JObj d2"
    unfolding stub_apply_patch_def json.case bind_res_Inr by blast
  have fr0: "map_of (fst st') k = map_of (fst st) k" if "k \<noteq> ''assumptions''" for k
    using a that by (auto simp: bind_res_Inr split: if_splits dest: setdefault_append_other)
  have fr: "map_of d2 k = map_of (fst st) k" if "k \<noteq> ''assumptions''" "k \<noteq> ''patchHistory''" for k
    using setdefault_append_other[OF f, of k] setdefault_append_other[OF h, of k] fr0[of k] that by simp
  have "map_of (fst st) ''assumptions'' = map_of (ensure_lists b) ''assumptions''"
    by (rule stub_patch_rules_summary(2)[OF s]) simp_all
  then have x0: "map_of (fst st) ''assumptions'' = Some (JList (assumptions_of (JObj b)))"
    using ensure_lists_assumptions[of b] by simp
  have x1: "map_of (fst st') ''assumptions'' = Some (JList (assumptions_of (JObj b) @
          (if snd st = [] then [JStr (recorded_note edit_text)] else [])))
       \<and> snd st' = (if snd st = [] then [''recorded as assumption''] else snd st)"
    using a x0 setdefault_append_val[of "fst st" "''assumptions''" "JStr (recorded_note edit_text)"]
    by (auto simp: bind_res_Inr split: if_splits)
  then have x2: "map_of d1 ''assumptions'' = Some (JList (assumptions_of (JObj b) @
          (if snd st = [] then [JStr (recorded_note edit_text)] else [])))"
    using setdefault_append_other[OF h, of "''assumptions''"] by simp
  have "map_of d2 ''assumptions'' = Some (JList ((assumptions_of (JObj b) @
          (if snd st = [] then [JStr (recorded_note edit_text)] else [])) @
          [JStr (''Stub patch applied: '' @ py_join '', '' (snd st'))]))"
    using setdefault_append_val[OF f] x2 by auto
  then have "assumptions_of r = assumptions_of (JObj b) @
          (if snd st = [] then [JStr (recorded_note edit_text)] else []) @
          [JStr (''Stub patch applied: '' @
                 py_join '', '' (if snd st = [] then [''recorded as assumption''] else snd st))]"
    using x1 by (simp add: r assumptions_of_def)
  with fr s r show ?thesis by blast
qed

subsection \<open>The colour rule\<close>

lemma safe_patch_observed:
  assumes "safe_patch clk (JObj b) edit_text = Inr r"
  obtains st where "safe_patch_rules clk b edit_text = Inr st"
    and "entities_of r = entities_of (JObj (fst st))"
    and "sky_color r = sky_color (JObj (fst st))"
    and "doc_field ''environment'' r = map_of (fst st) ''environment''"
    and "assumptions_of r = assumptions_of (JObj b) @
          [JStr (if snd st = [] then recorded_note edit_text
                 else ''safe_patch_applied:'' @ py_join '','' (snd st))]"
proof -
  from safe_patch_summary[OF assms] obtain st d where
    s: "safe_patch_rules clk b edit_text = Inr st" and r: "r = JObj d"
    and fr: "\<forall>k. k \<noteq> ''assumptions'' \<and> k \<noteq> ''patchHistory'' \<longrightarrow> map_of d k = map_of (fst st) k"
    and a: "assumptions_of r = assumptions_of (JObj b) @
          [JStr (if snd st = [] then recorded_note edit_text
                 else ''safe_patch_applied:'' @ py_join '','' (snd st))]" by blast
  have e: "map_of d ''entities'' = map_of (fst st) ''entities''"
    and v: "map_of d ''environment'' = map_of (fst st) ''environment''"
    using fr by simp_all
  show thesis
    using that[OF s _ _ _ a] entities_of_cong[OF e] sky_color_cong[OF v] v
    by (simp add: r doc_field_def)
qed

lemma stub_apply_patch_observed:
  assumes "stub_apply_patch clk rnd (JObj b) edit_text = Inr r"
  obtains st where "stub_patch_rules clk rnd b edit_text = Inr st"
    and "entities_of r = entities_of (JObj (fst st))"
    and "sky_color r = sky_color (JObj (fst st))"
    and "doc_field ''environment'' r = map_of (fst st) ''environment''"
    and "assumptions_of r = assumptions_of (JObj b) @
          (if snd st = [] then [JStr (recorded_note edit_text)] else []) @
          [JStr (''Stub patch applied: '' @
                 py_join '', '' (if snd st = [] then [''recorded as assumption''] else snd st))]"
proof -
  from stub_apply_patch_summary[OF assms] obtain st d where
    s: "stub_patch_rules clk rnd b edit_text = Inr st" and r: "r = JObj d"
    and fr: "\<forall>k. k \<noteq> ''assumptions'' \<and> k \<noteq> ''patchHistory'' \<longrightarrow> map_of d k = map_of (fst st) k"
    and a: "assumptions_of r = assumptions_of (JObj b) @
          (if snd st = [] then [JStr (recorded_note edit_text)] else []) @
          [JStr (''Stub patch applied: '' @
                 py_join '', '' (if snd st = [] then [''recorded as assumption''] else snd st))]" by blast
  have e: "map_of d ''entities'' = map_of (fst st) ''entities''"
    and v: "map_of d ''environment'' = map_of (fst st) ''environment''"
    using fr by simp_all
  show thesis
    using that[OF s _ _ _ a] entities_of_cong[OF e] sky_color_cong[OF v] v
    by (simp add: r doc_field_def)
qed

text \<open>
  Claim C5, as stated: when the edit text contains a colour keyword, every entity gets
  that keyword's hex value and so does \<^verbatim>\<open>environment.skyColor\<close>. Two inputs show it
  false. A document without an \<^verbatim>\<open>environment\<close> comes back without one, because the
  store is guarded by \<^verbatim>\<open>if patched.get("environment")\<close>; and the text \<^verbatim>\<open>red and blue\<close>
  contains the keyword \<^verbatim>\<open>red\<close>, yet the entities end up blue, because the loop visits
  \<^verbatim>\<open>blue\<close> after \<^verbatim>\<open>red\<close>.
\<close>

theorem color_keyword_rule_counterexample:
  "safe_patch clock0 (JObj [(''entities'', JList [JObj []])]) ''blue''
     = Inr (JObj [(''entities'', JList [JObj [(''params'', JObj [(''color'', JStr ''#0000ff'')])]]),
                  (''assumptions'', JList [JStr ''safe_patch_applied:color:blue'']),
                  (''patchHistory'', JList [JObj [(''editText'', JStr ''blue''),
                       (''appliedAt'', JStr ''2023-11-14T22:13:20Z''), (''source'', JStr ''safe_patch'')]])])
   \<and> sky_color (JObj [(''entities'', JList [JObj [(''params'', JObj [(''color'', JStr ''#0000ff'')])]]),
                  (''assumptions'', JList [JStr ''safe_patch_applied:color:blue'']),
                  (''patchHistory'', JList [JObj [(''editText'', JStr ''blue''),
                       (''appliedAt'', JStr ''2023-11-14T22:13:20Z''), (''source'', JStr ''safe_patch'')]])])
       = None
   \<and> is_substring ''red'' (py_lower ''red and blue'')
   \<and> safe_patch clock0 (JObj [(''entities'', JList [JObj []])]) ''red and blue''
     = Inr (JObj [(''entities'', JList [JObj [(''params'', JObj [(''color'', JStr ''#0000ff'')])]]),
                  (''assumptions'', JList [JStr ''safe_patch_applied:color:red,color:blue'']),
                  (''patchHistory'', JList [JObj [(''editText'', JStr ''red and blue''),
                       (''appliedAt'', JStr ''2023-11-14T22:13:20Z''), (''source'', JStr ''safe_patch'')]])])"
  by code_simp

text \<open>
  Claim C5, amended: let the edit text, lower-cased, contain at least one of the eleven
  keywords. Whenever the transform returns, every entity's \<^verbatim>\<open>params.color\<close> is the hex
  value of the last keyword, in the order of the table, that occurs in the text;
  \<^verbatim>\<open>environment.skyColor\<close> is the same value when the input's \<^verbatim>\<open>environment\<close> is
  true in Python's sense (a non-empty mapping), and the \<^verbatim>\<open>environment\<close> field is as in
  the input otherwise; and the summary appended to \<^verbatim>\<open>assumptions\<close> lists one entry per
  occurring keyword, \<^verbatim>\<open>color:<name>\<close> in \<^verbatim>\<open>safe_patch\<close> and \<^verbatim>\<open>color -> <name>\<close> in
  \<^verbatim>\<open>stub_apply_patch\<close>, before the entries of the other rules.
\<close>

theorem color_keyword_rule:
  assumes "colors_present (py_lower edit_text) \<noteq> []"
  shows "(safe_patch clk (JObj b) edit_text = Inr r \<longrightarrow>
            (\<forall>e \<in> set (entities_of r). entity_param ''color'' e = Some (last_color (py_lower edit_text)))
          \<and> (env_truthy b \<longrightarrow> sky_color r = Some (last_color (py_lower edit_text)))
          \<and> (\<not> env_truthy b \<longrightarrow> doc_field ''environment'' r = map_of b ''environment'')
          \<and> (\<exists>rest. assumptions_of r = assumptions_of (JObj b) @
                [JStr (''safe_patch_applied:'' @ py_join '',''
                   (map (\<lambda>kv. ''color:'' @ fst kv) (colors_present (py_lower edit_text)) @ rest))]))
       \<and> (stub_apply_patch clk rnd (JObj b) edit_text = Inr r' \<longrightarrow>
            (\<forall>e \<in> set (entities_of r'). entity_param ''color'' e = Some (last_color (py_lower edit_text)))
          \<and> (env_truthy b \<longrightarrow> sky_color r' = Some (last_color (py_lower edit_text)))
          \<and> (\<not> env_truthy b \<longrightarrow> doc_field ''environment'' r' = map_of b ''environment'')
          \<and> (\<exists>rest. assumptions_of r' = assumptions_of (JObj b) @
                [JStr (''Stub patch applied: '' @ py_join '', ''
                   (map (\<lambda>kv. ''color -> '' @ fst kv) (colors_present (py_lower edit_text)) @ rest))]))"
proof (intro conjI impI)
  let ?e = "py_lower edit_text"
  {
    assume "safe_patch clk (JObj b) edit_text = Inr r"
    from safe_patch_observed[OF this] obtain st where
      s: "safe_patch_rules clk b edit_text = Inr st"
      and o: "entities_of r = entities_of (JObj (fst st))" "sky_color r = sky_color (JObj (fst st))"
        "doc_field ''environment'' r = map_of (fst st) ''environment''"
      and a: "assumptions_of r = assumptions_of (JObj b) @
          [JStr (if snd st = [] then recorded_note edit_text
                 else ''safe_patch_applied:'' @ py_join '','' (snd st))]" by blast
    note f = safe_patch_rules_summary[OF s]
    show "\<forall>e \<in> set (entities_of r). entity_param ''color'' e = Some (last_color ?e)"
      unfolding o(1) by (rule f(3)[OF assms])
    show "sky_color r = Some (last_color ?e)" if "env_truthy b"
      unfolding o(2) by (rule f(4)[OF assms that])
    show "doc_field ''environment'' r = map_of b ''environment''" if "\<not> env_truthy b"
      unfolding o(3) by (rule f(5)[OF that])
    have n: "snd st \<noteq> []" unfolding f(1) using assms by simp
    have "assumptions_of r = assumptions_of (JObj b) @
            [JStr (''safe_patch_applied:'' @ py_join '','' (snd st))]"
      using a n by simp
    then show "\<exists>rest. assumptions_of r = assumptions_of (JObj b) @
                [JStr (''safe_patch_applied:'' @ py_join '',''
                   (map (\<lambda>kv. ''color:'' @ fst kv) (colors_present ?e) @ rest))]"
      unfolding f(1) by (rule exI)
  }
  {
    assume "stub_apply_patch clk rnd (JObj b) edit_text = Inr r'"
    from stub_apply_patch_observed[OF this] obtain st where
      s: "stub_patch_rules clk rnd b edit_text = Inr st"
      and o: "entities_of r' = entities_of (JObj (fst st))" "sky_color r' = sky_color (JObj (fst st))"
        "doc_field ''environment'' r' = map_of (fst st) ''environment''"
      and a: "assumptions_of r' = assumptions_of (JObj b) @
          (if snd st = [] then [JStr (recorded_note edit_text)] else []) @
          [JStr (''Stub patch applied: '' @
                 py_join '', '' (if snd st = [] then [''recorded as assumption''] else snd st))]" by blast
    note f = stub_patch_rules_summary[OF s]
    show "\<forall>e \<in> set (entities_of r'). entity_param ''color'' e = Some (last_color ?e)"
      unfolding o(1) by (rule f(3)[OF assms])
    show "sky_color r' = Some (last_color ?e)" if "env_truthy b"
      unfolding o(2) by (rule f(4)[OF assms that])
    show "doc_field ''environment'' r' = map_of b ''environment''" if "\<not> env_truthy b"
      unfolding o(3) by (rule f(5)[OF that])
    have n: "snd st \<noteq> []" unfolding f(1) using assms by simp
    have "assumptions_of r' = assumptions_of (JObj b) @
            [JStr (''Stub patch applied: '' @ py_join '', '' (snd st))]"
      using a n by simp
    then show "\<exists>rest. assumptions_of r' = assumptions_of (JObj b) @
                [JStr (''Stub patch applied: '' @ py_join '', ''
                   (map (\<lambda>kv. ''color -> '' @ fst kv) (colors_present ?e) @ rest))]"
      unfolding f(1) by (rule exI)
  }
qed

theorem color_keyword_rule_witness:
  "colors_present (py_lower ''Make it Blue'') \<noteq> []
   \<and> safe_patch clock0
        (JObj [(''environment'', JObj [(''fog'', JNum 1)]), (''entities'', JList [JObj []])])
        ''Make it Blue''
      = Inr (JObj [(''environment'', JObj [(''fog'', JNum 1), (''skyColor'', JStr ''#0000ff'')]),
                 (''entities'', JList [JObj [(''params'', JObj [(''color'', JStr ''#0000ff'')])]]),
                 (''assumptions'', JList [JStr ''safe_patch_applied:color:blue'']),
                 (''patchHistory'', JList [JObj [(''editText'', JStr ''Make it Blue''),
                      (''appliedAt'', JStr ''2023-11-14T22:13:20Z''), (''source'', JStr ''safe_patch'')]])])
   \<and> env_truthy [(''environment'', JObj [(''fog'', JNum 1)]), (''entities'', JList [JObj []])]
   \<and> sky_color (JObj [(''environment'', JObj [(''fog'', JNum 1), (''skyColor'', JStr ''#0000ff'')]),
                 (''entities'', JList [JObj [(''params'', JObj [(''color'', JStr ''#0000ff'')])]]),
                 (''assumptions'', JList [JStr ''safe_patch_applied:color:blue'']),
                 (''patchHistory'', JList [JObj [(''editText'', JStr ''Make it Blue''),
                      (''appliedAt'', JStr ''2023-11-14T22:13:20Z''), (''source'', JStr ''safe_patch'')]])])
      = Some (JStr ''#0000ff'')"
proof -
  have h1: "colors_present (py_lower ''Make it Blue'') \<noteq> []"
    by code_simp
  have h2: "safe_patch clock0
        (JObj [(''environment'', JObj [(''fog'', JNum 1)]), (''entities'', JList [JObj []])])
        ''Make it Blue''
      = Inr (JObj [(''environment'', JObj [(''fog'', JNum 1), (''skyColor'', JStr ''#0000ff'')]),
                 (''entities'', JList [JObj [(''params'', JObj [(''color'', JStr ''#0000ff'')])]]),
                 (''assumptions'', JList [JStr ''safe_patch_applied:color:blue'']),
                 (''patchHistory'', JList [JObj [(''editText'', JStr ''Make it Blue''),
                      (''appliedAt'', JStr ''2023-11-14T22:13:20Z''), (''source'', JStr ''safe_patch'')]])])"
    by code_simp
  have h3: "env_truthy [(''environment'', JObj [(''fog'', JNum 1)]), (''entities'', JList [JObj []])]"
    by code_simp
  have h4: "last_color (py_lower ''Make it Blue'') = JStr ''#0000ff''"
    by code_simp
  from color_keyword_rule[OF h1, of clock0 _ _ "\<lambda>_. 0" JNull] h2 h3
  have "sky_color (JObj [(''environment'', JObj [(''fog'', JNum 1), (''skyColor'', JStr ''#0000ff'')]),
                 (''entities'', JList [JObj [(''params'', JObj [(''color'', JStr ''#0000ff'')])]]),
                 (''assumptions'', JList [JStr ''safe_patch_applied:color:blue'']),
                 (''patchHistory'', JList [JObj [(''editText'', JStr ''Make it Blue''),
                      (''appliedAt'', JStr ''2023-11-14T22:13:20Z''), (''source'', JStr ''safe_patch'')]])])
      = Some (last_color (py_lower ''Make it Blue''))"
    by blast
  with h1 h2 h3 h4 show ?thesis by simp
qed

subsection \<open>The speed rules\<close>




subsection \<open>The resolvers\<close>

lemma safe_patch_bad_assumptions:
  "safe_patch clk (JObj [(''assumptions'', JStr ''x'')]) ''hello'' = Inl AttributeError"
  by code_simp

lemma apply_style_null_env:
  "apply_style (JObj [(''environment'', JNull)]) ''cyberpunk'' = Inl AttributeError"
  by code_simp

text \<open>
  Claim C1: \<^verbatim>\<open>apply_patch\<close> and \<^verbatim>\<open>enrich_style\<close> never raise to their caller. The
  handler of \<^verbatim>\<open>except Exception\<close> calls the deterministic transform again, outside any
  \<^verbatim>\<open>try\<close>, so an input on which the transform raises makes the resolver raise: a
  document whose \<^verbatim>\<open>assumptions\<close> is the string \<^verbatim>\<open>"x"\<close> for \<^verbatim>\<open>apply_patch\<close>
  (\<^verbatim>\<open>'str' object has no attribute 'append'\<close>), a document whose \<^verbatim>\<open>environment\<close> is
  \<^verbatim>\<open>null\<close> for \<^verbatim>\<open>enrich_style\<close> (\<^verbatim>\<open>None\<close> has no \<^verbatim>\<open>update\<close>). This is so whether the
  backend answers with an empty text or raises (as the local stub does on these
  documents), and whatever \<^verbatim>\<open>json.loads\<close> and the clock are.
\<close>

theorem resolvers_raise:
  "apply_patch (\<lambda>p mt t. Inr (JStr [])) loads clk (JObj [(''assumptions'', JStr ''x'')]) ''hello'' JNull
     = Inl AttributeError
   \<and> apply_patch (\<lambda>p mt t. Inl AttributeError) loads clk (JObj [(''assumptions'', JStr ''x'')]) ''hello'' JNull
     = Inl AttributeError
   \<and> enrich_style (\<lambda>p mt t. Inr (JStr [])) loads clk (JObj [(''environment'', JNull)]) ''cyberpunk'' JNull
     = Inl AttributeError
   \<and> enrich_style (\<lambda>p mt t. Inl AttributeError) loads clk (JObj [(''environment'', JNull)]) ''cyberpunk'' JNull
     = Inl AttributeError"
  by (simp add: apply_patch_def apply_patch_try_def enrich_style_def enrich_style_try_def bind_res_def
      extract_json_from_text_def extract_first_json_block_def parse_json_or_none_def
      safe_patch_bad_assumptions apply_style_null_env)



lemma has_list_iff: "has_list k (JObj d) \<longleftrightarrow> (\<exists>xs. map_of d k = Some (JList xs))"
  by (auto simp: has_list_def doc_field_def split: option.splits json.splits)

lemma has_list_cong: "map_of d' k = map_of d k \<Longrightarrow> has_list k (JObj d') = has_list k (JObj d)"
  by (simp add: has_list_iff)


















end
